theory Spec2Isabelle
  imports Complex_Main "HOL-Library.Stream" "HOL-Library.AList" "HOL-Library.Log_Nat"
begin

section \<open>Data model (types.ts)\<close>

text \<open>
  A JavaScript number is modelled as the rational it denotes: timestamps are
  integral milliseconds, intervals are days and become fractional when halved.
  The arithmetic of the scheduler is given twice below: exact, and with every
  result rounded to the nearest double as the engine does. An optional field
  (\<^verbatim>\<open>dueDate?: number\<close>) is an \<open>option\<close>: \<open>None\<close> is the absent field.

  \<^verbatim>\<open>Omit<Flashcard, 'id' | 'createdAt' | 'dueDate' | 'interval'>\<close> is the type of a
  draft; a flashcard is a draft extended by the four omitted fields.
\<close>

record flashcard_draft =
  word :: string
  definition' :: string
  exampleSentence :: "string option"
  lastReviewedAt :: "rat option"

record flashcard = flashcard_draft +
  id :: string
  createdAt :: rat
  dueDate :: "rat option"
  interval :: "rat option"

record 'a ApiResponse =
  success :: bool
  data :: "'a option"
  error :: "string option"

text \<open>
  The system clock is an effect. \<^verbatim>\<open>Date.now()\<close> is a read of a stream of
  readings: it returns the head and leaves the tail for the next read. Nothing
  is assumed about the readings (two reads may or may not agree).
\<close>

type_synonym clock = "rat stream"

definition Date_now :: "clock \<Rightarrow> rat \<times> clock" where
  "Date_now clk = (shd clk, stl clk)"

text \<open>\<^verbatim>\<open>x || 0\<close> on an optional number: the absent field and 0 both give 0.\<close>

definition orZero :: "rat option \<Rightarrow> rat" where
  "orZero x = (case x of None \<Rightarrow> 0 | Some v \<Rightarrow> v)"

text \<open>\<^verbatim>\<open>s || d\<close> on an optional string: absent and the empty string are falsy.\<close>

definition orElse :: "string option \<Rightarrow> string \<Rightarrow> string" where
  "orElse s d = (case s of None \<Rightarrow> d | Some v \<Rightarrow> if v = [] then d else v)"

section \<open>Scheduler (App.tsx, calculateNextDueDate)\<close>

text \<open>
  \<^verbatim>\<open>
  let newInterval = flashcard.interval || 0;
  if (success) newInterval = Math.max(1, newInterval === 0 ? 1 : newInterval * 2);
  else         newInterval = Math.max(0, newInterval / 2);
  const newDueDate = Date.now() + newInterval * 24 * 60 * 60 * 1000;
  return { ...flashcard, lastReviewedAt: Date.now(), interval: newInterval, dueDate: newDueDate };
  \<close>
  The clock is read twice: first for the due date, then for \<open>lastReviewedAt\<close>.
  The spread copies the card, so the argument is not changed. (A primed name
  stands for the source's parameter where the plain name is a record field.)
  Here the arithmetic is exact; \<open>calculateNextDueDate_double\<close> below is the same
  body in the arithmetic of doubles.
\<close>

definition calculateNextDueDate :: "flashcard \<Rightarrow> bool \<Rightarrow> clock \<Rightarrow> flashcard \<times> clock" where
  "calculateNextDueDate flashcard success' clk =
     (let newInterval = orZero (interval flashcard);
          newInterval = (if success' then max 1 (if newInterval = 0 then 1 else newInterval * 2)
                         else max 0 (newInterval / 2));
          (t1, clk) = Date_now clk;
          newDueDate = t1 + newInterval * 24 * 60 * 60 * 1000;
          (t2, clk) = Date_now clk
      in (flashcard\<lparr>lastReviewedAt := Some t2, interval := Some newInterval,
                     dueDate := Some newDueDate\<rparr>, clk))"

subsection \<open>The arithmetic of doubles\<close>

text \<open>
  The engine computes with IEEE 754 binary64 numbers: the result of \<^verbatim>\<open>*\<close>,
  \<^verbatim>\<open>/\<close> and \<^verbatim>\<open>+\<close> is the exact result rounded to the nearest double, a tie
  going to the double with the even significand. A double is \<open>m * 2^k\<close> with
  \<open>|m| < 2^53\<close> and \<open>k \<ge> -1074\<close>. For \<open>x\<close> with \<open>2^e \<le> |x| < 2^(e+1)\<close> the doubles
  around \<open>x\<close> are the multiples of \<open>2^(max (e - 52) (-1074))\<close>. Results of
  magnitude \<open>2^1024\<close> or more, which the engine turns into \<^verbatim>\<open>Infinity\<close>, are not
  modelled (\<open>binary64\<close> rounds them like any other number): what is stated
  below about doubles is meant for numbers under that bound.
\<close>

definition ilog2 :: "rat \<Rightarrow> int" where
  "ilog2 x = (if 1 \<le> x then bitlen \<lfloor>x\<rfloor> - 1 else - bitlen (\<lceil>1 / x\<rceil> - 1))"

definition quantum :: "rat \<Rightarrow> rat" where
  "quantum x = 2 powi (max (ilog2 \<bar>x\<bar> - 52) (- 1074))"

definition round_half_even :: "rat \<Rightarrow> int" where
  "round_half_even z =
     (let n = \<lfloor>z\<rfloor>; r = z - of_int n
      in if r < 1 / 2 then n else if 1 / 2 < r then n + 1 else if even n then n else n + 1)"

definition binary64 :: "rat \<Rightarrow> rat" where
  "binary64 x = (if x = 0 then 0 else of_int (round_half_even (x / quantum x)) * quantum x)"

text \<open>
  \<^verbatim>\<open>calculateNextDueDate\<close> as the engine runs it: the same body, with the
  result of every multiplication, division and addition rounded. (\<^verbatim>\<open>Math.max\<close>
  and the comparison with 0 do not round; \<^verbatim>\<open>a * b * c\<close> is \<^verbatim>\<open>(a * b) * c\<close>.)
\<close>

definition calculateNextDueDate_double :: "flashcard \<Rightarrow> bool \<Rightarrow> clock \<Rightarrow> flashcard \<times> clock" where
  "calculateNextDueDate_double flashcard success' clk =
     (let newInterval = orZero (interval flashcard);
          newInterval = (if success' then max 1 (if newInterval = 0 then 1 else binary64 (newInterval * 2))
                         else max 0 (binary64 (newInterval / 2)));
          (t1, clk) = Date_now clk;
          newDueDate = binary64 (t1 + binary64 (binary64 (binary64 (binary64
                         (newInterval * 24) * 60) * 60) * 1000));
          (t2, clk) = Date_now clk
      in (flashcard\<lparr>lastReviewedAt := Some t2, interval := Some newInterval,
                     dueDate := Some newDueDate\<rparr>, clk))"

text \<open>
  The new interval of \<open>calculateNextDueDate_double\<close> as a function of the old one,
  for stating the lemmas about it.
\<close>

definition newInterval_double :: "rat \<Rightarrow> bool \<Rightarrow> rat" where
  "newInterval_double i s = (if s then max 1 (if i = 0 then 1 else binary64 (i * 2))
                             else max 0 (binary64 (i / 2)))"

section \<open>Deck order (the comparator of App.tsx, Array.prototype.sort)\<close>

text \<open>
  \<^verbatim>\<open>(a, b) => (a.dueDate || 0) - (b.dueDate || 0)\<close>: a missing due date counts as 0.
\<close>

definition dueKey :: "flashcard \<Rightarrow> rat" where
  "dueKey a = orZero (dueDate a)"

definition compareDueDate :: "flashcard \<Rightarrow> flashcard \<Rightarrow> rat" where
  "compareDueDate a b = dueKey a - dueKey b"

text \<open>
  \<^verbatim>\<open>Array.prototype.sort\<close> is a library function: ECMAScript requires it to be
  stable and to order the array by the comparator. It is modelled by insertion
  sort, from the right end, each element going before the first one it does not
  compare greater than. For a comparator that is a difference of keys every
  stable sort returns the same array.
\<close>

fun insertBy :: "('a \<Rightarrow> 'a \<Rightarrow> rat) \<Rightarrow> 'a \<Rightarrow> 'a list \<Rightarrow> 'a list" where
  "insertBy cmp x [] = [x]"
| "insertBy cmp x (y # ys) = (if cmp x y \<le> 0 then x # y # ys else y # insertBy cmp x ys)"

definition Array_sort :: "('a \<Rightarrow> 'a \<Rightarrow> rat) \<Rightarrow> 'a list \<Rightarrow> 'a list" where
  "Array_sort cmp xs = foldr (insertBy cmp) xs []"

section \<open>JSON text and HTTP messages\<close>

text \<open>
  A string handed to \<^verbatim>\<open>JSON.parse\<close> is represented by what the parser makes
  of it: \<open>Stringified v\<close> is the text \<^verbatim>\<open>JSON.stringify(v)\<close> of a value of the
  declared type, \<open>Malformed raw\<close> is a text \<open>raw\<close> that is not valid JSON (the
  empty string is \<open>Malformed []\<close>). \<^verbatim>\<open>JSON.parse\<close> throws a \<^verbatim>\<open>SyntaxError\<close> on
  the latter: \<open>Inl\<close> carries the message of the exception. The wording of the
  message is the engine's; the model fixes one.
\<close>

datatype 'a json_text = Stringified 'a | Malformed string

definition SyntaxError_message :: "string \<Rightarrow> string" where
  "SyntaxError_message raw =
     (if raw = [] then ''Unexpected end of JSON input'' else ''Unexpected token in JSON'')"

definition JSON_stringify :: "'a \<Rightarrow> 'a json_text" where
  "JSON_stringify v = Stringified v"

fun JSON_parse :: "'a json_text \<Rightarrow> string + 'a" where
  "JSON_parse (Stringified v) = Inr v"
| "JSON_parse (Malformed raw) = Inl (SyntaxError_message raw)"

text \<open>Truthiness of a string: the empty string is falsy.\<close>

fun truthy :: "'a json_text \<Rightarrow> bool" where
  "truthy (Stringified v) = True"
| "truthy (Malformed raw) = (raw \<noteq> [])"

text \<open>
  A response body is one of: a JSON value of the type the endpoint declares, the
  JSON error object \<^verbatim>\<open>{ success: false, error: message }\<close>, a text that is not
  JSON, or nothing (204). The first two travel with
  \<^verbatim>\<open>Content-Type: application/json\<close>; the CORS headers are not modelled.
\<close>

datatype 'a body = JsonValue 'a | JsonError string | Text string | NoContent

record 'a response =
  status :: nat
  body :: "'a body"

record 'b request =
  method' :: string
  url :: string
  request_body :: "'b json_text option"

text \<open>\<^verbatim>\<open>fetch\<close> rejects (no response: the network failed) or resolves.\<close>

datatype 'a fetch_result = Rejected string | Resolved "'a response"

definition ok :: "'a response \<Rightarrow> bool" where
  "ok r = (200 \<le> status r \<and> status r \<le> 299)"

text \<open>
  \<^verbatim>\<open>response.json()\<close>, read at the type the caller declares for the result. An
  error object in a 2xx response is not a value of that type (the worker never
  sends one); the model lets the read fail there.
\<close>

definition json :: "'a response \<Rightarrow> string + 'a" where
  "json r = (case body r of
       JsonValue v \<Rightarrow> Inr v
     | JsonError m \<Rightarrow> Inl ''Unexpected JSON value''
     | Text t \<Rightarrow> Inl (SyntaxError_message t)
     | NoContent \<Rightarrow> Inl (SyntaxError_message []))"

definition request_json :: "'b request \<Rightarrow> string + 'b" where
  "request_json r = (case request_body r of
       None \<Rightarrow> Inl (SyntaxError_message [])
     | Some t \<Rightarrow> JSON_parse t)"

text \<open>Decimal digits of a number, as a template literal prints it.\<close>

fun show_nat :: "nat \<Rightarrow> string" where
  "show_nat n = (if n < 10 then [''0123456789'' ! n]
                 else show_nat (n div 10) @ [''0123456789'' ! (n mod 10)])"

definition ENDPOINTS_FLASHCARDS :: string where
  "ENDPOINTS_FLASHCARDS = ''/api/flashcards''"

section \<open>FlashcardStore (services/flashcardService.ts)\<close>

text \<open>
  \<^verbatim>\<open>parseErrorResponse\<close>: a JSON body gives its \<^verbatim>\<open>error\<close> field, or
  \<^verbatim>\<open>Unknown error (status)\<close> when that is missing or empty; any other body gives
  its text.
\<close>

definition parseErrorResponse :: "'a response \<Rightarrow> string" where
  "parseErrorResponse r = (case body r of
       JsonValue v \<Rightarrow> ''Unknown error ('' @ show_nat (status r) @ '')''
     | JsonError m \<Rightarrow> orElse (Some m) (''Unknown error ('' @ show_nat (status r) @ '')'')
     | Text t \<Rightarrow> t
     | NoContent \<Rightarrow> [])"

text \<open>
  Each operation of the service is a \<^verbatim>\<open>try\<close> around one \<^verbatim>\<open>fetch\<close>: every
  exception ends in \<^verbatim>\<open>{ success: false, error }\<close>. \<open>fetch\<close> is a parameter: it
  takes the request and the state of the world outside the client (network and
  server) and returns its result and the new state.
\<close>

definition failed :: "string \<Rightarrow> 'a ApiResponse" where
  "failed errorMessage = \<lparr>success = False, data = None, error = Some errorMessage\<rparr>"

definition getFlashcards ::
  "(unit request \<Rightarrow> 'w \<Rightarrow> flashcard list fetch_result \<times> 'w) \<Rightarrow> 'w \<Rightarrow> flashcard list ApiResponse \<times> 'w" where
  "getFlashcards fetch w =
     (case fetch \<lparr>method' = ''GET'', url = ENDPOINTS_FLASHCARDS, request_body = None\<rparr> w of
        (Rejected errorMessage, w) \<Rightarrow> (failed errorMessage, w)
      | (Resolved r, w) \<Rightarrow>
          if \<not> ok r then
            (failed (''Failed to fetch flashcards: '' @ show_nat (status r) @ '' '' @ parseErrorResponse r), w)
          else (case json r of
                  Inl errorMessage \<Rightarrow> (failed errorMessage, w)
                | Inr data' \<Rightarrow> (\<lparr>success = True, data = Some data', error = None\<rparr>, w)))"

definition addFlashcard ::
  "(flashcard_draft request \<Rightarrow> 'w \<Rightarrow> flashcard fetch_result \<times> 'w) \<Rightarrow> flashcard_draft \<Rightarrow> 'w
     \<Rightarrow> flashcard ApiResponse \<times> 'w" where
  "addFlashcard fetch flashcard w =
     (case fetch \<lparr>method' = ''POST'', url = ENDPOINTS_FLASHCARDS,
                  request_body = Some (JSON_stringify flashcard)\<rparr> w of
        (Rejected errorMessage, w) \<Rightarrow> (failed errorMessage, w)
      | (Resolved r, w) \<Rightarrow>
          if \<not> ok r then
            (failed (''Failed to add flashcard: '' @ show_nat (status r) @ '' '' @ parseErrorResponse r), w)
          else (case json r of
                  Inl errorMessage \<Rightarrow> (failed errorMessage, w)
                | Inr data' \<Rightarrow> (\<lparr>success = True, data = Some data', error = None\<rparr>, w)))"

definition updateFlashcard ::
  "(flashcard request \<Rightarrow> 'w \<Rightarrow> flashcard fetch_result \<times> 'w) \<Rightarrow> flashcard \<Rightarrow> 'w
     \<Rightarrow> flashcard ApiResponse \<times> 'w" where
  "updateFlashcard fetch flashcard w =
     (case fetch \<lparr>method' = ''PUT'', url = ENDPOINTS_FLASHCARDS @ ''/'' @ id flashcard,
                  request_body = Some (JSON_stringify flashcard)\<rparr> w of
        (Rejected errorMessage, w) \<Rightarrow> (failed errorMessage, w)
      | (Resolved r, w) \<Rightarrow>
          if \<not> ok r then
            (failed (''Failed to update flashcard: '' @ show_nat (status r) @ '' '' @ parseErrorResponse r), w)
          else (case json r of
                  Inl errorMessage \<Rightarrow> (failed errorMessage, w)
                | Inr data' \<Rightarrow> (\<lparr>success = True, data = Some data', error = None\<rparr>, w)))"


section \<open>The store-side endpoints (worker.ts)\<close>

text \<open>
  The KV namespace binding: keys with their stored texts, in the order
  \<^verbatim>\<open>list()\<close> reports them. A call of the binding can reject (the service is
  remote); \<open>fault\<close> holds the message it rejects with when it does.
\<close>

record kv_namespace =
  entries :: "(string \<times> flashcard json_text) list"
  fault :: "string option"

definition KV_list :: "kv_namespace \<Rightarrow> string + string list" where
  "KV_list kv = (case fault kv of Some m \<Rightarrow> Inl m | None \<Rightarrow> Inr (map fst (entries kv)))"

definition KV_get :: "kv_namespace \<Rightarrow> string \<Rightarrow> string + flashcard json_text option" where
  "KV_get kv key = (case fault kv of Some m \<Rightarrow> Inl m | None \<Rightarrow> Inr (map_of (entries kv) key))"

definition KV_put :: "kv_namespace \<Rightarrow> string \<Rightarrow> flashcard json_text \<Rightarrow> string + kv_namespace" where
  "KV_put kv key v = (case fault kv of Some m \<Rightarrow> Inl m
                      | None \<Rightarrow> Inr (kv\<lparr>entries := AList.update key v (entries kv)\<rparr>))"

text \<open>
  What a request handler of the worker works on: the KV binding of its \<open>env\<close>,
  the source of \<^verbatim>\<open>crypto.randomUUID()\<close> and the worker's clock.
\<close>

record worker_state =
  FLASHCARDS_KV :: kv_namespace
  random :: "string stream"
  now :: clock

definition crypto_randomUUID :: "worker_state \<Rightarrow> string \<times> worker_state" where
  "crypto_randomUUID w = (shd (random w), w\<lparr>random := stl (random w)\<rparr>)"

definition worker_Date_now :: "worker_state \<Rightarrow> rat \<times> worker_state" where
  "worker_Date_now w = (let (t, clk) = Date_now (now w) in (t, w\<lparr>now := clk\<rparr>))"

definition createJsonResponse :: "'a \<Rightarrow> nat \<Rightarrow> 'a response" where
  "createJsonResponse data' status' = \<lparr>status = status', body = JsonValue data'\<rparr>"

definition createErrorResponse :: "string \<Rightarrow> nat \<Rightarrow> 'a response" where
  "createErrorResponse message status' = \<lparr>status = status', body = JsonError message\<rparr>"

text \<open>
  \<^verbatim>\<open>Promise.all\<close>: the values of all promises, or the rejection of one that
  rejects (the first in the array, in the model).
\<close>

fun Promise_all :: "(string + 'a) list \<Rightarrow> string + 'a list" where
  "Promise_all [] = Inr []"
| "Promise_all (Inl e # ps) = Inl e"
| "Promise_all (Inr v # ps) = (case Promise_all ps of Inl e \<Rightarrow> Inl e | Inr vs \<Rightarrow> Inr (v # vs))"

text \<open>
  GET /api/flashcards.
  \<^verbatim>\<open>
  try {
    const { keys } = await env.FLASHCARDS_KV.list();
    const flashcardPromises = keys.map(async (key) => {
      const value = await env.FLASHCARDS_KV.get(key.name);
      return value ? JSON.parse(value) : null;
    });
    const flashcards = (await Promise.all(flashcardPromises)).filter(Boolean) as Flashcard[];
    return createJsonResponse(flashcards);
  } catch (e: any) {
    return createErrorResponse(`Failed to retrieve flashcards: ${e.message}`, 500);
  }
  \<close>
\<close>

definition read_entry :: "kv_namespace \<Rightarrow> string \<Rightarrow> string + flashcard option" where
  "read_entry kv key =
     (case KV_get kv key of
        Inl m \<Rightarrow> Inl m
      | Inr None \<Rightarrow> Inr None
      | Inr (Some v) \<Rightarrow>
          if truthy v then (case JSON_parse v of Inl m \<Rightarrow> Inl m | Inr c \<Rightarrow> Inr (Some c))
          else Inr None)"

definition GET_flashcards :: "worker_state \<Rightarrow> flashcard list response" where
  "GET_flashcards w =
     (case KV_list (FLASHCARDS_KV w) of
        Inl m \<Rightarrow> createErrorResponse (''Failed to retrieve flashcards: '' @ m) 500
      | Inr keys \<Rightarrow>
          (case Promise_all (map (read_entry (FLASHCARDS_KV w)) keys) of
             Inl m \<Rightarrow> createErrorResponse (''Failed to retrieve flashcards: '' @ m) 500
           | Inr vs \<Rightarrow> createJsonResponse (List.map_filter (\<lambda>v. v) vs) 200))"

text \<open>
  POST /api/flashcards.
  \<^verbatim>\<open>
  try {
    const newFlashcardData = await request.json();
    const id = crypto.randomUUID();
    const createdAt = Date.now();
    const dueDate = Date.now(); // Due immediately upon creation
    const interval = 0;
    const flashcard: Flashcard = { ...newFlashcardData, id, createdAt, dueDate, interval };
    await env.FLASHCARDS_KV.put(id, JSON.stringify(flashcard));
    return createJsonResponse(flashcard, 201);
  } catch (e: any) {
    return createErrorResponse(`Failed to add flashcard: ${e.message}`, 400);
  }
  \<close>
  No field of the draft is inspected.
\<close>

definition POST_flashcards ::
  "flashcard_draft request \<Rightarrow> worker_state \<Rightarrow> flashcard response \<times> worker_state" where
  "POST_flashcards req w =
     (case request_json req of
        Inl m \<Rightarrow> (createErrorResponse (''Failed to add flashcard: '' @ m) 400, w)
      | Inr newFlashcardData \<Rightarrow>
          (let (id', w) = crypto_randomUUID w;
               (createdAt', w) = worker_Date_now w;
               (dueDate', w) = worker_Date_now w;
               interval' = 0;
               flashcard = \<lparr>word = word newFlashcardData,
                            definition' = definition' newFlashcardData,
                            exampleSentence = exampleSentence newFlashcardData,
                            lastReviewedAt = lastReviewedAt newFlashcardData,
                            id = id', createdAt = createdAt', dueDate = Some dueDate',
                            interval = Some interval'\<rparr>
           in (case KV_put (FLASHCARDS_KV w) id' (JSON_stringify flashcard) of
                 Inl m \<Rightarrow> (createErrorResponse (''Failed to add flashcard: '' @ m) 400, w)
               | Inr kv \<Rightarrow> (createJsonResponse flashcard 201, w\<lparr>FLASHCARDS_KV := kv\<rparr>))))"

text \<open>
  For stating what a listing returns: the cards of the entries whose stored text
  is valid card JSON, in the order of the entries.
\<close>

fun valid_cards :: "(string \<times> flashcard json_text) list \<Rightarrow> flashcard list" where
  "valid_cards [] = []"
| "valid_cards ((k, Stringified c) # es) = c # valid_cards es"
| "valid_cards ((k, Malformed raw) # es) = valid_cards es"

text \<open>
  The client's \<^verbatim>\<open>fetch\<close> when the network delivers the request to the worker
  and the response back. (The worker's dispatch on path and method is not
  modelled: each function above is the body of one of its branches.)
\<close>

definition worker_GET :: "unit request \<Rightarrow> worker_state \<Rightarrow> flashcard list fetch_result \<times> worker_state" where
  "worker_GET req w = (Resolved (GET_flashcards w), w)"

definition worker_POST ::
  "flashcard_draft request \<Rightarrow> worker_state \<Rightarrow> flashcard fetch_result \<times> worker_state" where
  "worker_POST req w = (let (r, w) = POST_flashcards req w in (Resolved r, w))"

section \<open>Deck and SyncCoordinator (the state and handlers of App.tsx)\<close>

text \<open>
  The cursor \<^verbatim>\<open>currentFlashcardIndex\<close> is a JavaScript number. It is an
  integer or, after \<^verbatim>\<open>x % 0\<close>, \<^verbatim>\<open>NaN\<close>.
\<close>

datatype index = Index int | NaN

text \<open>\<^verbatim>\<open>a % b\<close> on integers: the remainder has the sign of \<open>a\<close>; \<^verbatim>\<open>a % 0\<close> is NaN.\<close>

definition js_rem :: "int \<Rightarrow> int \<Rightarrow> index" where
  "js_rem a b = (if b = 0 then NaN else Index (sgn a * (\<bar>a\<bar> mod \<bar>b\<bar>)))"



text \<open>
  The React state of \<^verbatim>\<open>App\<close> that the handlers below use. \<open>error'\<close> is the
  state variable \<^verbatim>\<open>error\<close>. The values a handler captured at render time are
  those of the state it starts from. \<open>fetchFlashcards\<close>, \<open>handleAddFlashcard\<close>
  and \<open>handleReviewFlashcard\<close> are given as they run when no other handler
  runs before their last state update; \<open>handleDeleteFlashcard\<close> takes what
  happens while it awaits as an argument.
\<close>

record app_state =
  flashcards :: "flashcard list"
  loading :: bool
  error' :: "string option"
  currentFlashcardIndex :: index

definition fetchFlashcards ::
  "(unit request \<Rightarrow> 'w \<Rightarrow> flashcard list fetch_result \<times> 'w) \<Rightarrow> app_state \<Rightarrow> 'w \<Rightarrow> app_state \<times> 'w" where
  "fetchFlashcards fetch s w =
     (let s = s\<lparr>loading := True\<rparr>;
          s = s\<lparr>error' := None\<rparr>;
          (response, w) = getFlashcards fetch w;
          s = (case (success response, data response) of
                 (True, Some data') \<Rightarrow> s\<lparr>flashcards := Array_sort compareDueDate data'\<rparr>
               | _ \<Rightarrow> s\<lparr>error' := Some (orElse (error response) ''Failed to load flashcards.'')\<rparr>)
      in (s\<lparr>loading := False\<rparr>, w))"

definition handleAddFlashcard ::
  "(flashcard_draft request \<Rightarrow> 'w \<Rightarrow> flashcard fetch_result \<times> 'w) \<Rightarrow> flashcard_draft
     \<Rightarrow> app_state \<Rightarrow> 'w \<Rightarrow> app_state \<times> 'w" where
  "handleAddFlashcard fetch newFlashcardData s w =
     (let s = s\<lparr>error' := None\<rparr>;
          (response, w) = addFlashcard fetch newFlashcardData w
      in (case (success response, data response) of
            (True, Some data') \<Rightarrow>
              (s\<lparr>flashcards := Array_sort compareDueDate (flashcards s @ [data'])\<rparr>, w)
          | _ \<Rightarrow> (s\<lparr>error' := Some (orElse (error response) ''Failed to add flashcard.'')\<rparr>, w)))"

text \<open>
  \<^verbatim>\<open>handleReviewFlashcard\<close>: nothing happens when no card has the id. Otherwise
  the scheduler makes the updated card, the store is asked to save it, and only
  a successful answer is put into the list (the store's copy, not the local
  one); the cursor then moves on when the list had more than one card.
\<close>

definition handleReviewFlashcard ::
  "(flashcard request \<Rightarrow> 'w \<Rightarrow> flashcard fetch_result \<times> 'w) \<Rightarrow> string \<Rightarrow> bool
     \<Rightarrow> app_state \<Rightarrow> clock \<Rightarrow> 'w \<Rightarrow> app_state \<times> clock \<times> 'w" where
  "handleReviewFlashcard fetch id' success' s clk w =
     (case List.find (\<lambda>f. id f = id') (flashcards s) of
        None \<Rightarrow> (s, clk, w)
      | Some flashcardToUpdate \<Rightarrow>
          (let (updatedFlashcard, clk) = calculateNextDueDate flashcardToUpdate success' clk;
               s' = s\<lparr>error' := None\<rparr>;
               (response, w) = updateFlashcard fetch updatedFlashcard w
           in (case (success response, data response) of
                 (True, Some data') \<Rightarrow>
                   (let s' = s'\<lparr>flashcards := Array_sort compareDueDate
                                   (map (\<lambda>f. if id f = id' then data' else f) (flashcards s'))\<rparr>;
                        s' = (if length (flashcards s) > 1
                              then s'\<lparr>currentFlashcardIndex :=
                                        (case currentFlashcardIndex s' of
                                           NaN \<Rightarrow> NaN
                                         | Index prevIndex \<Rightarrow>
                                             js_rem (prevIndex + 1) (int (length (flashcards s))))\<rparr>
                              else s')
                    in (s', clk, w))
               | _ \<Rightarrow> (s'\<lparr>error' := Some (orElse (error response)
                                           ''Failed to update flashcard review status.'')\<rparr>, clk, w))))"


definition handleNextFlashcard :: "app_state \<Rightarrow> app_state" where
  "handleNextFlashcard s =
     s\<lparr>currentFlashcardIndex :=
         (case currentFlashcardIndex s of
            NaN \<Rightarrow> NaN
          | Index prevIndex \<Rightarrow> js_rem (prevIndex + 1) (int (length (flashcards s))))\<rparr>"

definition handlePreviousFlashcard :: "app_state \<Rightarrow> app_state" where
  "handlePreviousFlashcard s =
     s\<lparr>currentFlashcardIndex :=
         (case currentFlashcardIndex s of
            NaN \<Rightarrow> NaN
          | Index prevIndex \<Rightarrow>
              js_rem (prevIndex - 1 + int (length (flashcards s))) (int (length (flashcards s))))\<rparr>"


text \<open>
  The Next and Previous buttons are rendered only when the list is loaded and
  not empty, and carry \<^verbatim>\<open>disabled={flashcards.length <= 1 || isReadingAloud}\<close>.
  A click on a button that is absent or disabled runs no handler.
\<close>

definition navigation_enabled :: "bool \<Rightarrow> app_state \<Rightarrow> bool" where
  "navigation_enabled isReadingAloud s =
     (\<not> loading s \<and> length (flashcards s) \<noteq> 0
      \<and> \<not> (length (flashcards s) \<le> 1 \<or> isReadingAloud))"

definition click_Next :: "bool \<Rightarrow> app_state \<Rightarrow> app_state" where
  "click_Next isReadingAloud s =
     (if navigation_enabled isReadingAloud s then handleNextFlashcard s else s)"

definition click_Previous :: "bool \<Rightarrow> app_state \<Rightarrow> app_state" where
  "click_Previous isReadingAloud s =
     (if navigation_enabled isReadingAloud s then handlePreviousFlashcard s else s)"

section \<open>AddWordForm.handleSubmit\<close>

record form_state =
  form_word :: string
  form_definition :: string
  form_exampleSentence :: string
  form_error :: string

text \<open>
  \<^verbatim>\<open>
  setError('');
  if (!word.trim() || !definition.trim()) {
    setError('Word and Definition are required.');
    return;
  }
  await onAdd({ word, definition, exampleSentence });
  setWord(''); setDefinition(''); setExampleSentence('');
  if (onSuccess) onSuccess();
  \<close>
  \<open>onAdd\<close> is the callback of the parent (\<^verbatim>\<open>handleAddFlashcard\<close>), acting on the
  parent's state \<open>p\<close>; \<^verbatim>\<open>onSuccess\<close> only navigates and is left out.
  \<open>trim\<close> is the engine's \<^verbatim>\<open>String.prototype.trim\<close>, which strips the white
  space and the line terminators of Unicode from both ends. Like \<^verbatim>\<open>fetch\<close> it
  is an argument: the function is the engine's, not the program's, and what is
  proved of \<open>handleSubmit\<close> holds for every function in its place.
\<close>

definition handleSubmit ::
  "(string \<Rightarrow> string) \<Rightarrow> (flashcard_draft \<Rightarrow> 'p \<Rightarrow> 'p) \<Rightarrow> form_state \<Rightarrow> 'p
     \<Rightarrow> form_state \<times> 'p" where
  "handleSubmit trim onAdd f p =
     (let f' = f\<lparr>form_error := []\<rparr> in
      if trim (form_word f) = [] \<or> trim (form_definition f) = []
      then (f'\<lparr>form_error := ''Word and Definition are required.''\<rparr>, p)
      else (let p = onAdd \<lparr>word = form_word f, definition' = form_definition f,
                            exampleSentence = Some (form_exampleSentence f),
                            lastReviewedAt = None\<rparr> p
            in (f'\<lparr>form_word := [], form_definition := [], form_exampleSentence := []\<rparr>, p)))"

section \<open>Values used in the examples\<close>

text \<open>A card used in the examples below: a fresh card, created and due at 1000.\<close>

definition card0 :: flashcard where
  "card0 = \<lparr>word = ''ephemeral'', definition' = ''lasting a short time'',
            exampleSentence = None, lastReviewedAt = None,
            id = ''a'', createdAt = 1000, dueDate = Some 1000, interval = Some 0\<rparr>"

text \<open>
  More cards, a deck of three (due at 1000, 1000 and 3000, the cursor on the
  first), and two stand-ins for \<^verbatim>\<open>fetch\<close>: one that answers every request with
  the same response, one that has no network.
\<close>

definition cardB :: flashcard where
  "cardB = card0\<lparr>id := ''b'', dueDate := Some 3000\<rparr>"

definition cardC :: flashcard where
  "cardC = card0\<lparr>id := ''c'', dueDate := None\<rparr>"

definition cardD :: flashcard where
  "cardD = card0\<lparr>id := ''d''\<rparr>"

definition deck3 :: app_state where
  "deck3 = \<lparr>flashcards = [card0, cardD, cardB], loading = False, error' = None,
            currentFlashcardIndex = Index 0\<rparr>"

definition answer :: "'a response \<Rightarrow> 'b request \<Rightarrow> unit \<Rightarrow> 'a fetch_result \<times> unit" where
  "answer r req w = (Resolved r, w)"

definition offline :: "'b request \<Rightarrow> unit \<Rightarrow> 'a fetch_result \<times> unit" where
  "offline req w = (Rejected ''Failed to fetch'', w)"

text \<open>
  Worker states: an empty store; a store of three valid cards and one text that
  is not JSON; a store with an empty text. Two drafts, one with an empty word
  and definition.
\<close>

definition worker0 :: worker_state where
  "worker0 = \<lparr>FLASHCARDS_KV = \<lparr>entries = [], fault = None\<rparr>,
              random = ''uuid-1'' ## sconst ''uuid-2'',
              now = 1000 ## 1001 ## sconst 1002\<rparr>"

definition worker_corrupt :: worker_state where
  "worker_corrupt = worker0\<lparr>FLASHCARDS_KV :=
       \<lparr>entries = [(''a'', Stringified card0), (''b'', Stringified cardB),
                   (''x'', Malformed ''{oops''), (''d'', Stringified cardD)],
        fault = None\<rparr>\<rparr>"

definition worker_blank :: worker_state where
  "worker_blank = worker0\<lparr>FLASHCARDS_KV :=
       \<lparr>entries = [(''a'', Stringified card0), (''x'', Malformed []), (''d'', Stringified cardD)],
        fault = None\<rparr>\<rparr>"


definition draft_blank :: flashcard_draft where
  "draft_blank = \<lparr>word = [], definition' = [], exampleSentence = None, lastReviewedAt = None\<rparr>"

section \<open>Properties of the scheduler\<close>

lemma calculateNextDueDate_fields:
  "calculateNextDueDate c s clk =
     (c\<lparr>lastReviewedAt := Some (shd (stl clk)),
        interval := Some (if s then max 1 (if orZero (interval c) = 0 then 1 else orZero (interval c) * 2)
                          else max 0 (orZero (interval c) / 2)),
        dueDate := Some (shd clk +
                         (if s then max 1 (if orZero (interval c) = 0 then 1 else orZero (interval c) * 2)
                          else max 0 (orZero (interval c) / 2)) * 86400000)\<rparr>,
      stl (stl clk))"
  by (simp add: calculateNextDueDate_def Date_now_def Let_def)



section \<open>Properties of the arithmetic of doubles\<close>

text \<open>\<open>ilog2 x\<close> is the exponent of \<open>x\<close>: the \<open>e\<close> with \<open>2^e \<le> x < 2^(e+1)\<close>.\<close>

lemma ilog2_bounds:
  assumes "0 < x"
  shows "2 powi (ilog2 x) \<le> x \<and> x < 2 powi (ilog2 x + 1)"
proof (cases "1 \<le> x")
  case True
  define n where "n = \<lfloor>x\<rfloor>"
  have n: "0 < n" using True by (simp add: n_def)
  have b: "2 ^ nat (bitlen n - 1) \<le> n \<and> n < 2 ^ nat (bitlen n)"
    using n by (rule bitlen_bounds)
  have bl: "1 \<le> bitlen n"
    using n by (auto simp: bitlen_alt_def)
  have e: "ilog2 x = bitlen n - 1"
    using True by (simp add: ilog2_def n_def)
  have "(2::rat) powi (bitlen n - 1) = of_int (2 ^ nat (bitlen n - 1))"
    using bl by (simp add: power_int_def)
  also have "\<dots> \<le> of_int n"
    using b by (simp only: of_int_le_iff)
  also have "\<dots> \<le> x"
    by (simp add: n_def)
  finally have lo: "2 powi (ilog2 x) \<le> x"
    by (simp add: e)
  have "x < of_int (n + 1)"
    using floor_correct [of x] by (simp add: n_def)
  also have "\<dots> \<le> of_int (2 ^ nat (bitlen n))"
    using b by (simp only: of_int_le_iff) linarith
  also have "\<dots> = (2::rat) powi (bitlen n)"
    using bl by (simp add: power_int_def)
  finally have "x < 2 powi (ilog2 x + 1)"
    by (simp add: e)
  with lo show ?thesis ..
next
  case False
  define y where "y = 1 / x"
  define m where "m = \<lceil>y\<rceil> - 1"
  have y: "1 < y" using False assms by (simp add: y_def)
  then have m: "0 < m" by (simp add: m_def less_ceiling_iff)
  have b: "2 ^ nat (bitlen m - 1) \<le> m \<and> m < 2 ^ nat (bitlen m)"
    using m by (rule bitlen_bounds)
  have bl: "1 \<le> bitlen m"
    using m by (auto simp: bitlen_alt_def)
  have e: "ilog2 x = - bitlen m"
    using False by (simp add: ilog2_def m_def y_def)
  have my: "of_int m < y" "y \<le> of_int (m + 1)"
    using ceiling_correct [of y] by (simp_all add: m_def)
  have "y \<le> of_int (m + 1)" by (rule my)
  also have "\<dots> \<le> of_int (2 ^ nat (bitlen m))"
    using b by (simp only: of_int_le_iff) linarith
  also have "\<dots> = (2::rat) powi (bitlen m)"
    using bl by (simp add: power_int_def)
  finally have "1 / x \<le> 2 powi (bitlen m)"
    by (simp add: y_def)
  then have "inverse (2 powi (bitlen m)) \<le> x"
    using assms by (simp add: field_simps)
  then have lo: "2 powi (ilog2 x) \<le> x"
    by (simp add: e power_int_minus)
  have "(2::rat) powi (bitlen m - 1) = of_int (2 ^ nat (bitlen m - 1))"
    using bl by (simp add: power_int_def)
  also have "\<dots> \<le> of_int m"
    using b by (simp only: of_int_le_iff)
  also have "\<dots> < y" by (rule my)
  finally have "2 powi (bitlen m - 1) < 1 / x"
    by (simp add: y_def)
  then have "x < inverse (2 powi (bitlen m - 1))"
    using assms by (simp add: field_simps)
  then have "x < 2 powi (- (bitlen m - 1))"
    by (simp only: power_int_minus)
  then have "x < 2 powi (ilog2 x + 1)"
    by (simp add: e)
  with lo show ?thesis ..
qed



lemma quantum_pos: "0 < quantum x"
  by (simp add: quantum_def)

lemma round_half_even_of_int: "round_half_even (of_int n) = n"
  by (simp add: round_half_even_def)

lemma round_half_even_ge_1: "1 / 2 < z \<Longrightarrow> 1 \<le> round_half_even z"
proof -
  assume z: "1 / 2 < z"
  then have f: "0 \<le> \<lfloor>z\<rfloor>" by simp
  show ?thesis
  proof (cases "\<lfloor>z\<rfloor> = 0")
    case True
    with z show ?thesis by (simp add: round_half_even_def Let_def)
  next
    case False
    with f have "1 \<le> \<lfloor>z\<rfloor>" by linarith
    then show ?thesis
      by (simp add: round_half_even_def Let_def)
  qed
qed

lemma round_half_even_small: "0 \<le> z \<Longrightarrow> z \<le> 1 / 2 \<Longrightarrow> round_half_even z = 0"
proof -
  assume z: "0 \<le> z" "z \<le> 1 / 2"
  then have "\<lfloor>z\<rfloor> = 0" by (simp add: floor_eq_iff)
  with z show ?thesis
    by (simp add: round_half_even_def Let_def)
qed

text \<open>Every number above half the smallest subnormal rounds to a positive double.\<close>

lemma binary64_pos:
  assumes "2 powi (- 1075) < y"
  shows "0 < binary64 y"
proof -
  have y: "0 < y"
    using assms by (rule less_trans [rotated]) simp
  define e where "e = ilog2 y"
  have b: "2 powi e \<le> y"
    using ilog2_bounds [OF y] by (simp add: e_def)
  have q: "quantum y = 2 powi (max (e - 52) (- 1074))"
    using y by (simp add: quantum_def e_def)
  have "quantum y / 2 < y"
  proof (cases "e - 52 \<le> - 1074")
    case True
    then have "quantum y = 2 powi (- 1074)" by (simp add: q max_def)
    then have "quantum y / 2 = 2 powi (- 1075)"
      by (simp add: power_int_minus)
    with assms show ?thesis by simp
  next
    case False
    then have "quantum y = 2 powi (e - 52)" by (simp add: q max_def)
    also have "\<dots> \<le> 2 powi e"
      by (rule power_int_increasing) simp_all
    finally have "quantum y \<le> y" using b by simp
    moreover have "quantum y / 2 < quantum y"
      using quantum_pos [of y] by simp
    ultimately show ?thesis by simp
  qed
  then have "1 / 2 < y / quantum y"
    using quantum_pos [of y] by (simp add: field_simps)
  then have "1 \<le> round_half_even (y / quantum y)"
    by (rule round_half_even_ge_1)
  then have "0 < rat_of_int (round_half_even (y / quantum y)) * quantum y"
    using quantum_pos [of y] by simp
  with y show ?thesis
    by (simp add: binary64_def)
qed

text \<open>Every number from 0 to half the smallest subnormal rounds to 0.\<close>

lemma binary64_underflow:
  assumes "0 \<le> y" and "y \<le> 2 powi (- 1075)"
  shows "binary64 y = 0"
proof (cases "y = 0")
  case True
  then show ?thesis by (simp add: binary64_def)
next
  case False
  with assms have y: "0 < y" by simp
  define e where "e = ilog2 y"
  have "2 powi e \<le> y"
    using ilog2_bounds [OF y] by (simp add: e_def)
  also have "y < 2 powi (- 1074)"
    using assms(2) by (rule le_less_trans) (simp add: power_int_minus)
  finally have "e < - 1074"
    by (metis linorder_not_less one_less_numeral_iff power_int_increasing semiring_norm(76) order_less_imp_le)
  then have q: "quantum y = 2 powi (- 1074)"
    using y by (simp add: quantum_def e_def max_def)
  have "y / quantum y \<le> 1 / 2"
    using assms(2) by (simp add: q power_int_minus field_simps)
  moreover have "0 \<le> y / quantum y"
    using y quantum_pos [of y] by simp
  ultimately have "round_half_even (y / quantum y) = 0"
    by (intro round_half_even_small)
  then show ?thesis
    by (simp add: binary64_def)
qed

text \<open>
  A number \<open>m * 2^k\<close> with \<open>|m| < 2^53\<close> and \<open>k \<ge> -1074\<close> is a double: rounding
  leaves it as it is.
\<close>

lemma binary64_representable:
  assumes "\<bar>m\<bar> < 2 ^ 53" and "- 1074 \<le> k"
  shows "binary64 (of_int m * 2 powi k) = of_int m * 2 powi k"
proof (cases "m = 0")
  case True
  then show ?thesis by (simp add: binary64_def)
next
  case False
  define x :: rat where "x = of_int m * 2 powi k"
  have x0: "x \<noteq> 0" using False by (simp add: x_def)
  then have ax: "0 < \<bar>x\<bar>" by simp
  define e where "e = ilog2 \<bar>x\<bar>"
  define g where "g = max (e - 52) (- 1074)"
  have q: "quantum x = 2 powi g"
    by (simp add: quantum_def e_def g_def)
  have "\<bar>x\<bar> = of_int \<bar>m\<bar> * 2 powi k"
    by (simp add: x_def abs_mult)
  also have "\<dots> < of_int (2 ^ 53) * 2 powi k"
    using assms(1) by (intro mult_strict_right_mono) (simp_all only: of_int_less_iff zero_less_power_int zero_less_numeral)
  also have "\<dots> = 2 powi (k + 53)"
    by (simp add: power_int_add)
  finally have "2 powi e < (2::rat) powi (k + 53)"
    using ilog2_bounds [OF ax] by (simp add: e_def)
  then have "e < k + 53"
    by (metis linorder_not_less one_less_numeral_iff power_int_increasing semiring_norm(76) order_less_imp_le)
  with assms(2) have gk: "g \<le> k" by (simp add: g_def)
  then obtain d where d: "k = g + int d"
    by (metis nonneg_int_cases diff_ge_0_iff_ge add_diff_cancel_left' add.commute diff_add_cancel)
  have "x / quantum x = x / 2 powi g"
    by (simp only: q)
  also have "\<dots> = of_int m * (2 powi k / 2 powi g)"
    by (simp add: x_def)
  also have "2 powi k / (2::rat) powi g = 2 ^ d"
    by (simp add: d power_int_add)
  finally have "x / quantum x = of_int (m * 2 ^ d)"
    by simp
  then have "round_half_even (x / quantum x) = m * 2 ^ d"
    by (simp only: round_half_even_of_int)
  then have "binary64 x = of_int (m * 2 ^ d) * 2 powi g"
    using x0 by (simp add: binary64_def q)
  also have "\<dots> = of_int m * (2 ^ d * 2 powi g)"
    by simp
  also have "2 ^ d * (2::rat) powi g = 2 powi k"
    by (simp add: d power_int_add)
  finally show ?thesis
    by (simp add: x_def)
qed

lemma binary64_of_int: "\<bar>n\<bar> < 2 ^ 53 \<Longrightarrow> binary64 (of_int n) = of_int n"
  using binary64_representable [of n 0] by simp




lemma binary64_fixed_ge:
  assumes "binary64 i = i" and "0 < i"
  shows "2 powi (- 1074) \<le> i"
proof -
  let ?n = "round_half_even (i / quantum i)"
  have q: "2 powi (- 1074) \<le> quantum i"
    unfolding quantum_def by (rule power_int_increasing) simp_all
  have i: "i = of_int ?n * quantum i"
    using assms by (simp add: binary64_def split: if_splits)
  have "0 < of_int ?n * quantum i"
    using i assms(2) by simp
  then have "0 < (of_int ?n :: rat)"
    using quantum_pos [of i] by (simp add: zero_less_mult_iff)
  then have "1 \<le> ?n"
    by simp
  then have "(1::rat) \<le> of_int ?n"
    by linarith
  then have "quantum i \<le> of_int ?n * quantum i"
    using quantum_pos [of i] by (simp add: mult_le_cancel_right1)
  with q i show ?thesis
    by linarith
qed

lemma binary64_nonneg: "0 \<le> x \<Longrightarrow> 0 \<le> binary64 x"
  using binary64_pos [of x] binary64_underflow [of x] by (cases "x \<le> 2 powi (- 1075)") auto

section \<open>Properties of the scheduler in the arithmetic of doubles\<close>

lemma calculateNextDueDate_double_fields:
  "calculateNextDueDate_double c s clk =
     (c\<lparr>lastReviewedAt := Some (shd (stl clk)),
        interval := Some (newInterval_double (orZero (interval c)) s),
        dueDate := Some (binary64 (shd clk + binary64 (binary64 (binary64 (binary64
                     (newInterval_double (orZero (interval c)) s * 24) * 60) * 60) * 1000)))\<rparr>,
      stl (stl clk))"
  by (simp add: calculateNextDueDate_double_def newInterval_double_def Date_now_def Let_def)

lemma binary64_int: "x = of_int n \<Longrightarrow> \<bar>n\<bar> < 2 ^ 53 \<Longrightarrow> binary64 x = x"
  using binary64_of_int [of n] by simp

lemma binary64_half_int: "\<bar>n\<bar> < 2 ^ 53 \<Longrightarrow> binary64 (of_int n / 2) = of_int n / 2"
  using binary64_representable [of n "- 1"] by (simp add: field_simps)

lemma newInterval_double_int:
  assumes "0 \<le> n" and "2 * n < 2 ^ 53"
  shows "newInterval_double (of_int n) True = of_int (if n = 0 then 1 else 2 * n)"
    and "newInterval_double (of_int n) False = of_int n / 2"
proof -
  have "binary64 (of_int n * 2) = of_int (2 * n)"
    using assms by (intro trans [OF binary64_int [of _ "2 * n"]]) simp_all
  with assms(1) show "newInterval_double (of_int n) True = of_int (if n = 0 then 1 else 2 * n)"
    by (simp add: newInterval_double_def max_def)
  have "binary64 (of_int n / 2) = of_int n / 2"
    using assms by (intro binary64_half_int) simp
  with assms(1) show "newInterval_double (of_int n) False = of_int n / 2"
    by (simp add: newInterval_double_def max_def)
qed

text \<open>The product and the sum of the due date are exact for \<open>h\<close> half days from \<open>t\<close>.\<close>

lemma dueDate_double_exact:
  assumes "0 \<le> h" and "0 \<le> t" and "t + h * 43200000 < 2 ^ 53"
  shows "binary64 (of_int t + binary64 (binary64 (binary64 (binary64
            (of_int h / 2 * 24) * 60) * 60) * 1000)) = of_int t + of_int h / 2 * 86400000"
proof -
  have 1: "binary64 (of_int h / 2 * 24) = of_int (h * 12)"
    using assms by (intro trans [OF binary64_int [of _ "h * 12"]]) simp_all
  have 2: "binary64 (of_int (h * 12) * 60) = of_int (h * 720)"
    using assms by (intro trans [OF binary64_int [of _ "h * 720"]]) simp_all
  have 3: "binary64 (of_int (h * 720) * 60) = of_int (h * 43200)"
    using assms by (intro trans [OF binary64_int [of _ "h * 43200"]]) simp_all
  have 4: "binary64 (of_int (h * 43200) * 1000) = of_int (h * 43200000)"
    using assms by (intro trans [OF binary64_int [of _ "h * 43200000"]]) simp_all
  have 5: "binary64 (of_int t + of_int (h * 43200000)) = of_int (t + h * 43200000)"
    using assms by (intro trans [OF binary64_int [of _ "t + h * 43200000"]]) simp_all
  show ?thesis
    by (simp only: 1 2 3 4 5)
qed



lemma newInterval_double_failure: "0 \<le> i \<Longrightarrow> newInterval_double i False = binary64 (i / 2)"
  using binary64_nonneg [of "i / 2"] by (simp add: newInterval_double_def max_def)

lemma newInterval_double_success: "1 \<le> newInterval_double i True"
  by (simp add: newInterval_double_def)

lemma half_least_double: "(2::rat) powi (- 1074) / 2 = 2 powi (- 1075)"
  using power_int_add [of "2::rat" "- 1075" 1] by simp

lemma half_above_least_double: "2 powi (- 1074) < i \<Longrightarrow> (2::rat) powi (- 1075) < i / 2"
  using half_least_double by linarith

lemma half_upto_least_double: "i \<le> 2 powi (- 1074) \<Longrightarrow> i / 2 \<le> (2::rat) powi (- 1075)"
  using half_least_double by linarith

lemma interval_double:
  "interval (fst (calculateNextDueDate_double c s clk)) = Some (newInterval_double (orZero (interval c)) s)"
  by (simp add: calculateNextDueDate_double_fields)

lemma failed_reviews_from_one:
  "k \<le> 1074 \<Longrightarrow>
   interval (fst (((\<lambda>(c, clk). calculateNextDueDate_double c False clk) ^^ k)
                    (card0\<lparr>interval := Some 1\<rparr>, clk))) = Some (2 powi (- int k))"
proof (induction k)
  case 0
  show ?case
    by simp
next
  case (Suc k)
  obtain c' clk' where s: "((\<lambda>(c, clk). calculateNextDueDate_double c False clk) ^^ k)
                    (card0\<lparr>interval := Some 1\<rparr>, clk) = (c', clk')"
    by (cases "((\<lambda>(c, clk). calculateNextDueDate_double c False clk) ^^ k)
                    (card0\<lparr>interval := Some 1\<rparr>, clk)")
  have i: "interval c' = Some (2 powi (- int k))"
    using Suc by (simp add: s)
  have h: "(2::rat) powi (- int k) / 2 = 2 powi (- int (Suc k))"
    using power_int_add [of "2::rat" "- int (Suc k)" 1] by simp
  have "binary64 (of_int 1 * 2 powi (- int (Suc k))) = of_int 1 * 2 powi (- int (Suc k))"
    using Suc.prems by (intro binary64_representable) simp_all
  then have "newInterval_double (2 powi (- int k)) False = 2 powi (- int (Suc k))"
    by (simp add: newInterval_double_failure h)
  then show ?case
    by (simp add: s interval_double i orZero_def)
qed

text \<open>
  Where nothing is rounded the two schedulers agree: for a card whose interval is
  a whole number of days, at a whole clock reading, below \<open>2^53\<close>.
\<close>

lemma calculateNextDueDate_double_exact:
  assumes "orZero (interval c) = of_int n" and "0 \<le> n"
    and "shd clk = of_int t" and "0 \<le> t" and "t + (2 * n + 1) * 86400000 < 2 ^ 53"
  shows "calculateNextDueDate_double c s clk = calculateNextDueDate c s clk"
proof -
  define h where "h = (if s then (if n = 0 then 2 else 4 * n) else n)"
  have n2: "2 * n < 2 ^ 53"
    using assms(2,4,5) by simp
  have i': "newInterval_double (orZero (interval c)) s = of_int h / 2"
    using newInterval_double_int [OF assms(2) n2] by (simp add: assms(1) h_def)
  have h: "0 \<le> h" "t + h * 43200000 < 2 ^ 53"
    using assms(2,4,5) by (auto simp add: h_def)
  have d: "binary64 (of_int t + binary64 (binary64 (binary64 (binary64
            (of_int h / 2 * 24) * 60) * 60) * 1000)) = of_int t + of_int h / 2 * 86400000"
    using h(1) assms(4) h(2) by (rule dueDate_double_exact)
  have e: "(if s then max 1 (if orZero (interval c) = 0 then 1 else orZero (interval c) * 2)
            else max 0 (orZero (interval c) / 2)) = of_int h / 2"
    using assms(2) by (simp add: assms(1) h_def max_def)
  show ?thesis
    by (simp only: calculateNextDueDate_double_fields calculateNextDueDate_fields i' e assms(3) d)
qed




text \<open>
  C10 (as stated, it fails). The claim: a failed review of a card whose interval
  is positive gives a positive interval, so that 0 is never entered from a
  positive interval. The least positive double is \<open>2^-1074\<close>; its half is a tie
  between 0 and \<open>2^-1074\<close> and is rounded to 0. That interval is reached: 1075
  failed reviews in a row of a card whose interval is 1 give the interval 0.
\<close>

theorem failed_review_stays_positive_counterexample:
  "interval (card0\<lparr>interval := Some (2 powi (- 1074))\<rparr>) = Some (2 powi (- 1074))
   \<and> (0::rat) < 2 powi (- 1074)
   \<and> binary64 (2 powi (- 1074)) = 2 powi (- 1074)
   \<and> interval (fst (calculateNextDueDate_double (card0\<lparr>interval := Some (2 powi (- 1074))\<rparr>) False
                  (sconst 0))) = Some 0
   \<and> interval (fst (((\<lambda>(c, clk). calculateNextDueDate_double c False clk) ^^ 1074)
                  (card0\<lparr>interval := Some 1\<rparr>, sconst 0))) = Some (2 powi (- 1074))
   \<and> interval (fst (((\<lambda>(c, clk). calculateNextDueDate_double c False clk) ^^ 1075)
                  (card0\<lparr>interval := Some 1\<rparr>, sconst 0))) = Some 0"
proof -
  have r: "binary64 (2 powi (- 1074)) = 2 powi (- 1074)"
    using binary64_representable [of 1 "- 1074"] by simp
  have "binary64 (2 powi (- 1074) / 2) = 0"
    by (rule binary64_underflow) (simp_all add: half_least_double)
  then have n: "newInterval_double (2 powi (- 1074)) False = 0"
    by (simp add: newInterval_double_failure)
  have o: "orZero (interval (card0\<lparr>interval := Some (2 powi (- 1074))\<rparr>)) = 2 powi (- 1074)"
    by (simp add: orZero_def)
  have one: "interval (fst (calculateNextDueDate_double (card0\<lparr>interval := Some (2 powi (- 1074))\<rparr>)
                  False (sconst 0))) = Some 0"
    by (simp only: interval_double o n)
  obtain c' clk' where s: "((\<lambda>(c, clk). calculateNextDueDate_double c False clk) ^^ 1074)
                    (card0\<lparr>interval := Some 1\<rparr>, sconst 0) = (c', clk')"
    by (cases "((\<lambda>(c, clk). calculateNextDueDate_double c False clk) ^^ 1074)
                    (card0\<lparr>interval := Some 1\<rparr>, sconst 0)")
  have i: "interval c' = Some (2 powi (- 1074))"
    using failed_reviews_from_one [of 1074 "sconst 0"] by (simp add: s)
  have chain: "interval (fst (((\<lambda>(c, clk). calculateNextDueDate_double c False clk) ^^ 1074)
                  (card0\<lparr>interval := Some 1\<rparr>, sconst 0))) = Some (2 powi (- 1074))"
    using i by (simp only: s fst_conv)
  have "((\<lambda>(c, clk). calculateNextDueDate_double c False clk) ^^ Suc 1074)
                    (card0\<lparr>interval := Some 1\<rparr>, sconst 0) = calculateNextDueDate_double c' False clk'"
    by (simp only: funpow.simps o_apply s prod.case)
  moreover have "Suc 1074 = 1075"
    by simp
  ultimately have "((\<lambda>(c, clk). calculateNextDueDate_double c False clk) ^^ 1075)
                    (card0\<lparr>interval := Some 1\<rparr>, sconst 0) = calculateNextDueDate_double c' False clk'"
    by (simp only:)
  moreover have "orZero (interval c') = 2 powi (- 1074)"
    by (simp only: i orZero_def option.case)
  ultimately have last: "interval (fst (((\<lambda>(c, clk). calculateNextDueDate_double c False clk) ^^ 1075)
                  (card0\<lparr>interval := Some 1\<rparr>, sconst 0))) = Some 0"
    by (simp only: interval_double n)
  have "interval (card0\<lparr>interval := Some (2 powi (- 1074))\<rparr>) = Some (2 powi (- 1074))"
    by simp
  moreover have "(0::rat) < 2 powi (- 1074)"
    by simp
  ultimately show ?thesis
    using r one chain last by blast
qed

text \<open>
  C10 (amended). A failed review of a card whose interval \<open>i\<close> is above \<open>2^-1074\<close>
  gives the interval \<open>i / 2\<close> rounded to a double, which is positive; it is \<open>i / 2\<close>
  itself when \<open>i\<close> is \<open>m * 2^k\<close> with \<open>0 < m < 2^53\<close> and \<open>k \<ge> -1073\<close> (1 gives 1/2).
  Of the positive doubles only \<open>2^-1074\<close> is taken to 0 by a failed review. So the
  scheduler returns the interval 0 only after a failed review of a card whose
  interval (non-negative, as the data model has it) was at most \<open>2^-1074\<close>.
\<close>

theorem failed_review_stays_positive:
  "(\<forall>i. interval c = Some i \<and> 2 powi (- 1074) < i
      \<longrightarrow> interval (fst (calculateNextDueDate_double c False clk)) = Some (binary64 (i / 2))
          \<and> 0 < binary64 (i / 2))
   \<and> (\<forall>m k. interval c = Some (of_int m * 2 powi k) \<and> 0 < m \<and> m < 2 ^ 53 \<and> - 1073 \<le> k
      \<longrightarrow> interval (fst (calculateNextDueDate_double c False clk)) = Some (of_int m * 2 powi k / 2))
   \<and> (\<forall>i. interval c = Some i \<and> 0 < i \<and> binary64 i = i
      \<longrightarrow> (interval (fst (calculateNextDueDate_double c False clk)) = Some 0
            \<longleftrightarrow> i = 2 powi (- 1074)))
   \<and> (0 \<le> orZero (interval c) \<and> interval (fst (calculateNextDueDate_double c s clk)) = Some 0
      \<longrightarrow> \<not> s \<and> orZero (interval c) \<le> 2 powi (- 1074))"
proof (intro conjI allI impI)
  fix i
  assume a: "interval c = Some i \<and> 2 powi (- 1074) < i"
  have "(0::rat) < 2 powi (- 1074)"
    by simp
  with a have i: "0 < i"
    by linarith
  then have o: "orZero (interval c) = i"
    using a by (simp add: orZero_def)
  show "interval (fst (calculateNextDueDate_double c False clk)) = Some (binary64 (i / 2))"
    using i by (simp add: interval_double o newInterval_double_failure)
  show "0 < binary64 (i / 2)"
    using a by (intro binary64_pos half_above_least_double) simp
next
  fix m k
  assume a: "interval c = Some (of_int m * 2 powi k) \<and> 0 < m \<and> m < 2 ^ 53 \<and> - 1073 \<le> k"
  have h: "rat_of_int m * 2 powi k / 2 = of_int m * 2 powi (k - 1)"
    using power_int_add [of "2::rat" "k - 1" 1] by simp
  have p: "0 < rat_of_int m * 2 powi k"
    using a by simp
  then have o: "orZero (interval c) = of_int m * 2 powi k"
    using a by (simp add: orZero_def)
  have "binary64 (of_int m * 2 powi (k - 1)) = of_int m * 2 powi (k - 1)"
    using a by (intro binary64_representable) simp_all
  then show "interval (fst (calculateNextDueDate_double c False clk)) = Some (of_int m * 2 powi k / 2)"
    using p by (simp add: interval_double o newInterval_double_failure h)
next
  fix i
  assume a: "interval c = Some i \<and> 0 < i \<and> binary64 i = i"
  then have o: "orZero (interval c) = i"
    by (simp add: orZero_def)
  have ge: "2 powi (- 1074) \<le> i"
    using a by (intro binary64_fixed_ge) simp_all
  have "0 \<le> i"
    using a by simp
  then have r: "interval (fst (calculateNextDueDate_double c False clk)) = Some (binary64 (i / 2))"
    by (simp only: interval_double o newInterval_double_failure)
  show "interval (fst (calculateNextDueDate_double c False clk)) = Some 0 \<longleftrightarrow> i = 2 powi (- 1074)"
  proof (cases "i = 2 powi (- 1074)")
    case True
    have "binary64 (i / 2) = 0"
      using True by (intro binary64_underflow half_upto_least_double) simp_all
    with True r show ?thesis
      by simp
  next
    case False
    with ge have "2 powi (- 1074) < i"
      by simp
    then have "0 < binary64 (i / 2)"
      by (intro binary64_pos half_above_least_double)
    with False r show ?thesis
      by simp
  qed
next
  assume a: "0 \<le> orZero (interval c) \<and> interval (fst (calculateNextDueDate_double c s clk)) = Some 0"
  show "\<not> s"
    using a newInterval_double_success [of "orZero (interval c)"] by (auto simp add: interval_double)
  then have z: "binary64 (orZero (interval c) / 2) = 0"
    using a newInterval_double_failure [of "orZero (interval c)"] by (auto simp add: interval_double)
  show "orZero (interval c) \<le> 2 powi (- 1074)"
  proof (rule ccontr)
    assume "\<not> orZero (interval c) \<le> 2 powi (- 1074)"
    then have "0 < binary64 (orZero (interval c) / 2)"
      by (intro binary64_pos half_above_least_double) simp
    with z show False
      by simp
  qed
qed

theorem failed_review_stays_positive_witness:
  "interval (card0\<lparr>interval := Some 1\<rparr>) = Some (of_int 1 * 2 powi 0)
   \<and> (0::int) < 1 \<and> (1::int) < 2 ^ 53 \<and> (- 1073 :: int) \<le> 0
   \<and> (2::rat) powi (- 1074) < 1
   \<and> interval (fst (calculateNextDueDate_double (card0\<lparr>interval := Some 1\<rparr>) False (sconst 0)))
       = Some (1 / 2)
   \<and> (0::rat) < 1 / 2"
  using failed_review_stays_positive [of "card0\<lparr>interval := Some 1\<rparr>" "sconst 0" False,
      THEN conjunct2, THEN conjunct1, rule_format, of 1 0]
  by simp

section \<open>Properties of the deck order\<close>

text \<open>
  For the comparator of the application, the model of \<^verbatim>\<open>Array.prototype.sort\<close>
  is the library's stable insertion sort by the key \<open>dueKey\<close>.
\<close>

lemma insertBy_compareDueDate: "insertBy compareDueDate x ys = insort_key dueKey x ys"
  by (induction ys) (simp_all add: compareDueDate_def)

lemma Array_sort_compareDueDate: "Array_sort compareDueDate xs = sort_key dueKey xs"
proof -
  have "insertBy compareDueDate = insort_key dueKey"
    by (intro ext) (rule insertBy_compareDueDate)
  then show ?thesis
    by (simp add: Array_sort_def sort_key_def)
qed

lemma Array_sort_sorted: "sorted (map dueKey (Array_sort compareDueDate xs))"
  by (simp add: Array_sort_compareDueDate)

lemma Array_sort_stable:
  "filter (\<lambda>c. dueKey c = k) (Array_sort compareDueDate xs) = filter (\<lambda>c. dueKey c = k) xs"
  by (simp add: Array_sort_compareDueDate sort_key_stable)

lemma fetchFlashcards_success:
  assumes "success (fst (getFlashcards fetch w))" and "data (fst (getFlashcards fetch w)) = Some cards"
  shows "flashcards (fst (fetchFlashcards fetch s w)) = Array_sort compareDueDate cards"
  using assms by (cases "getFlashcards fetch w") (simp add: fetchFlashcards_def Let_def)

lemma handleAddFlashcard_success:
  assumes "success (fst (addFlashcard fetch d w))" and "data (fst (addFlashcard fetch d w)) = Some added"
  shows "flashcards (fst (handleAddFlashcard fetch d s w)) = Array_sort compareDueDate (flashcards s @ [added])"
  using assms by (cases "addFlashcard fetch d w") (simp add: handleAddFlashcard_def Let_def)

lemma handleReviewFlashcard_success:
  assumes "List.find (\<lambda>f. id f = i) (flashcards s) = Some old"
    and "success (fst (updateFlashcard fetch (fst (calculateNextDueDate old b clk)) w))"
    and "data (fst (updateFlashcard fetch (fst (calculateNextDueDate old b clk)) w)) = Some added"
  shows "flashcards (fst (handleReviewFlashcard fetch i b s clk w))
         = Array_sort compareDueDate (map (\<lambda>f. if id f = i then added else f) (flashcards s))"
  using assms by (cases "updateFlashcard fetch (fst (calculateNextDueDate old b clk)) w"; cases "calculateNextDueDate old b clk") (simp add: handleReviewFlashcard_def Let_def)

text \<open>
  C4. After a successful load (\<^verbatim>\<open>fetchFlashcards\<close>, the deck is replaced by the
  listing), a successful add and a successful review (the two places where a
  card enters or is replaced in the deck), the deck is in non-decreasing order
  of due date, a missing due date counting as 0, and for every due date the
  cards that have it stand in the order they had in the list that was sorted:
  the listing, the old deck followed by the new card, the old deck with the
  reviewed card replaced.
\<close>

theorem deck_order:
  "(success (fst (getFlashcards fetchG w)) \<and> data (fst (getFlashcards fetchG w)) = Some cards \<longrightarrow>
      sorted (map dueKey (flashcards (fst (fetchFlashcards fetchG s w))))
      \<and> (\<forall>k. filter (\<lambda>c. dueKey c = k) (flashcards (fst (fetchFlashcards fetchG s w)))
             = filter (\<lambda>c. dueKey c = k) cards))
   \<and> (success (fst (addFlashcard fetchP d w)) \<and> data (fst (addFlashcard fetchP d w)) = Some added \<longrightarrow>
      sorted (map dueKey (flashcards (fst (handleAddFlashcard fetchP d s w))))
      \<and> (\<forall>k. filter (\<lambda>c. dueKey c = k) (flashcards (fst (handleAddFlashcard fetchP d s w)))
             = filter (\<lambda>c. dueKey c = k) (flashcards s @ [added])))
   \<and> (List.find (\<lambda>f. id f = i) (flashcards s) = Some old
       \<and> success (fst (updateFlashcard fetchU (fst (calculateNextDueDate old b clk)) w))
       \<and> data (fst (updateFlashcard fetchU (fst (calculateNextDueDate old b clk)) w)) = Some updated \<longrightarrow>
      sorted (map dueKey (flashcards (fst (handleReviewFlashcard fetchU i b s clk w))))
      \<and> (\<forall>k. filter (\<lambda>c. dueKey c = k) (flashcards (fst (handleReviewFlashcard fetchU i b s clk w)))
             = filter (\<lambda>c. dueKey c = k) (map (\<lambda>f. if id f = i then updated else f) (flashcards s))))
   \<and> dueKey (c\<lparr>dueDate := None\<rparr>) = 0"
proof (intro conjI impI)
  show "dueKey (c\<lparr>dueDate := None\<rparr>) = 0"
    by (simp add: dueKey_def orZero_def)
qed (simp_all only: fetchFlashcards_success handleAddFlashcard_success handleReviewFlashcard_success
       Array_sort_sorted Array_sort_stable simp_thms)

theorem deck_order_witness:
  "success (fst (getFlashcards (answer (createJsonResponse [cardB, card0, cardC, cardD] 200)) ()))
   \<and> data (fst (getFlashcards (answer (createJsonResponse [cardB, card0, cardC, cardD] 200)) ()))
       = Some [cardB, card0, cardC, cardD]
   \<and> flashcards (fst (fetchFlashcards (answer (createJsonResponse [cardB, card0, cardC, cardD] 200)) deck3 ()))
       = [cardC, card0, cardD, cardB]
   \<and> map dueKey [cardC, card0, cardD, cardB] = [0, 1000, 1000, 3000]
   \<and> success (fst (addFlashcard (answer (createJsonResponse cardC 201)) \<lparr>word = ''w'', definition' = ''d'', exampleSentence = None, lastReviewedAt = None\<rparr> ()))
   \<and> flashcards (fst (handleAddFlashcard (answer (createJsonResponse cardC 201)) \<lparr>word = ''w'', definition' = ''d'', exampleSentence = None, lastReviewedAt = None\<rparr> deck3 ()))
       = [cardC, card0, cardD, cardB]
   \<and> List.find (\<lambda>f. id f = ''a'') (flashcards deck3) = Some card0
   \<and> success (fst (updateFlashcard (answer (createJsonResponse (card0\<lparr>dueDate := Some 5000\<rparr>) 200))
                  (fst (calculateNextDueDate card0 True (sconst 4000))) ()))
   \<and> flashcards (fst (handleReviewFlashcard (answer (createJsonResponse (card0\<lparr>dueDate := Some 5000\<rparr>) 200))
                  ''a'' True deck3 (sconst 4000) ()))
       = [cardD, cardB, card0\<lparr>dueDate := Some 5000\<rparr>]"
  using deck_order [of "answer (createJsonResponse [cardB, card0, cardC, cardD] 200)" "()"
      "[cardB, card0, cardC, cardD]" deck3
      "answer (createJsonResponse cardC 201)"
      "\<lparr>word = ''w'', definition' = ''d'', exampleSentence = None, lastReviewedAt = None\<rparr>" cardC
      "''a''" card0 "answer (createJsonResponse (card0\<lparr>dueDate := Some 5000\<rparr>) 200)" True "sconst 4000"
      "card0\<lparr>dueDate := Some 5000\<rparr>" card0]
  by (simp add: card0_def cardB_def cardC_def cardD_def deck3_def answer_def
      getFlashcards_def addFlashcard_def updateFlashcard_def ok_def json_def createJsonResponse_def
      fetchFlashcards_def handleAddFlashcard_def handleReviewFlashcard_def
      calculateNextDueDate_fields Array_sort_def compareDueDate_def dueKey_def orZero_def
      js_rem_def)

section \<open>Properties of the review\<close>

lemma updateFlashcard_Rejected:
  "fst (fetch \<lparr>method' = ''PUT'', url = ENDPOINTS_FLASHCARDS @ ''/'' @ id c,
               request_body = Some (JSON_stringify c)\<rparr> w) = Rejected m
   \<Longrightarrow> \<not> success (fst (updateFlashcard fetch c w))"
  by (cases "fetch \<lparr>method' = ''PUT'', url = ENDPOINTS_FLASHCARDS @ ''/'' @ id c,
               request_body = Some (JSON_stringify c)\<rparr> w")
     (simp add: updateFlashcard_def failed_def)

lemma updateFlashcard_not_ok:
  "fst (fetch \<lparr>method' = ''PUT'', url = ENDPOINTS_FLASHCARDS @ ''/'' @ id c,
               request_body = Some (JSON_stringify c)\<rparr> w) = Resolved r \<Longrightarrow> \<not> ok r
   \<Longrightarrow> \<not> success (fst (updateFlashcard fetch c w))"
  by (cases "fetch \<lparr>method' = ''PUT'', url = ENDPOINTS_FLASHCARDS @ ''/'' @ id c,
               request_body = Some (JSON_stringify c)\<rparr> w")
     (simp add: updateFlashcard_def failed_def)

lemma handleReviewFlashcard_absent:
  "List.find (\<lambda>f. id f = i) (flashcards s) = None \<Longrightarrow> handleReviewFlashcard fetch i b s clk w = (s, clk, w)"
  by (simp add: handleReviewFlashcard_def)

lemma handleReviewFlashcard_failure:
  assumes "List.find (\<lambda>f. id f = i) (flashcards s) = Some old"
    and "\<not> success (fst (updateFlashcard fetch (fst (calculateNextDueDate old b clk)) w))"
  shows "fst (handleReviewFlashcard fetch i b s clk w)
         = s\<lparr>error' := Some (orElse (error (fst (updateFlashcard fetch (fst (calculateNextDueDate old b clk)) w)))
                                   ''Failed to update flashcard review status.'')\<rparr>"
  using assms
  by (cases "updateFlashcard fetch (fst (calculateNextDueDate old b clk)) w";
      cases "calculateNextDueDate old b clk")
     (simp add: handleReviewFlashcard_def Let_def)

text \<open>
  C5. A review of an id that no card of the deck has changes nothing at all.
  When a card has the id and the update fails at the store (the service answers
  \<^verbatim>\<open>success: false\<close>: the request was rejected, or the response was not 2xx
  or could not be read), the list of cards and the cursor are what they were:
  every card, the reviewed one included, keeps all its fields. Only the error
  message is set.
\<close>

theorem review_atomic:
  "(List.find (\<lambda>f. id f = i) (flashcards s) = None \<longrightarrow>
      handleReviewFlashcard fetch i b s clk w = (s, clk, w))
   \<and> (List.find (\<lambda>f. id f = i) (flashcards s) = Some old
       \<and> \<not> success (fst (updateFlashcard fetch (fst (calculateNextDueDate old b clk)) w)) \<longrightarrow>
      flashcards (fst (handleReviewFlashcard fetch i b s clk w)) = flashcards s
      \<and> currentFlashcardIndex (fst (handleReviewFlashcard fetch i b s clk w)) = currentFlashcardIndex s
      \<and> loading (fst (handleReviewFlashcard fetch i b s clk w)) = loading s
      \<and> error' (fst (handleReviewFlashcard fetch i b s clk w)) \<noteq> None)
   \<and> (List.find (\<lambda>f. id f = i) (flashcards s) = Some old
       \<and> (\<forall>req. (\<exists>m. fst (fetch req w) = Rejected m) \<or> (\<exists>r. fst (fetch req w) = Resolved r \<and> \<not> ok r)) \<longrightarrow>
      flashcards (fst (handleReviewFlashcard fetch i b s clk w)) = flashcards s
      \<and> currentFlashcardIndex (fst (handleReviewFlashcard fetch i b s clk w)) = currentFlashcardIndex s)"
proof (intro conjI impI)
  assume "List.find (\<lambda>f. id f = i) (flashcards s) = None"
  then show "handleReviewFlashcard fetch i b s clk w = (s, clk, w)"
    by (rule handleReviewFlashcard_absent)
next
  assume a: "List.find (\<lambda>f. id f = i) (flashcards s) = Some old
      \<and> (\<forall>req. (\<exists>m. fst (fetch req w) = Rejected m) \<or> (\<exists>r. fst (fetch req w) = Resolved r \<and> \<not> ok r))"
  let ?c = "fst (calculateNextDueDate old b clk)"
  from a have "\<not> success (fst (updateFlashcard fetch ?c w))"
    using updateFlashcard_Rejected [of fetch ?c w] updateFlashcard_not_ok [of fetch ?c w]
    by blast
  with a have e: "fst (handleReviewFlashcard fetch i b s clk w)
         = s\<lparr>error' := Some (orElse (error (fst (updateFlashcard fetch ?c w)))
                                   ''Failed to update flashcard review status.'')\<rparr>"
    by (simp add: handleReviewFlashcard_failure)
  show "flashcards (fst (handleReviewFlashcard fetch i b s clk w)) = flashcards s"
    by (simp add: e)
  show "currentFlashcardIndex (fst (handleReviewFlashcard fetch i b s clk w)) = currentFlashcardIndex s"
    by (simp add: e)
qed (simp_all add: handleReviewFlashcard_failure)

theorem review_atomic_witness:
  "List.find (\<lambda>f. id f = ''zz'') (flashcards deck3) = None
   \<and> handleReviewFlashcard offline ''zz'' True deck3 (sconst 4000) () = (deck3, sconst 4000, ())
   \<and> List.find (\<lambda>f. id f = ''a'') (flashcards deck3) = Some card0
   \<and> \<not> success (fst (updateFlashcard (answer (createErrorResponse ''KV down'' 500))
                       (fst (calculateNextDueDate card0 True (sconst 4000))) ()))
   \<and> flashcards (fst (handleReviewFlashcard (answer (createErrorResponse ''KV down'' 500))
                       ''a'' True deck3 (sconst 4000) ())) = [card0, cardD, cardB]
   \<and> currentFlashcardIndex (fst (handleReviewFlashcard (answer (createErrorResponse ''KV down'' 500))
                       ''a'' True deck3 (sconst 4000) ())) = Index 0
   \<and> error' (fst (handleReviewFlashcard (answer (createErrorResponse ''KV down'' 500))
                       ''a'' True deck3 (sconst 4000) ()))
       = Some ''Failed to update flashcard: 500 KV down''
   \<and> (\<forall>req. (\<exists>m. fst ((offline :: flashcard request \<Rightarrow> unit \<Rightarrow> flashcard fetch_result \<times> unit) req ()) = Rejected m)
             \<or> (\<exists>r. fst ((offline :: flashcard request \<Rightarrow> unit \<Rightarrow> flashcard fetch_result \<times> unit) req ()) = Resolved r \<and> \<not> ok r))
   \<and> flashcards (fst (handleReviewFlashcard offline ''a'' True deck3 (sconst 4000) ())) = flashcards deck3
   \<and> currentFlashcardIndex (fst (handleReviewFlashcard offline ''a'' True deck3 (sconst 4000) ())) = Index 0"
  using review_atomic [of "''zz''" deck3 offline True "sconst 4000" "()" card0]
        review_atomic [of "''a''" deck3 "answer (createErrorResponse ''KV down'' 500)" True "sconst 4000" "()" card0]
        review_atomic [of "''a''" deck3 offline True "sconst 4000" "()" card0]
  by (simp add: card0_def cardB_def cardD_def deck3_def answer_def offline_def
      updateFlashcard_def failed_def ok_def createErrorResponse_def handleReviewFlashcard_def
      calculateNextDueDate_fields parseErrorResponse_def orElse_def)

section \<open>Properties of the cursor\<close>






lemma js_rem_nonneg: "0 \<le> a \<Longrightarrow> 0 < n \<Longrightarrow> js_rem a n = Index (a mod n)"
  by (cases "a = 0") (simp_all add: js_rem_def)

text \<open>
  C9. A click on Next or on Previous changes nothing when the deck has 0 or 1
  cards (the buttons are absent or disabled then). When the buttons are enabled
  (the deck is loaded, has more than one card, and nothing is read aloud) a click
  moves the cursor by +1 or -1 modulo the length of the deck, wrapping at either
  end: from a cursor \<open>k \<ge> 0\<close> to \<open>(k + 1) mod n\<close> or \<open>(k - 1) mod n\<close>, which is an index
  of the deck. The handlers behind the buttons compute the same on every deck
  that is not empty, and change nothing on a deck of one card.
\<close>

theorem advance_wraps:
  "(length (flashcards s) \<le> 1 \<longrightarrow> click_Next r s = s \<and> click_Previous r s = s)
   \<and> (navigation_enabled r s \<and> currentFlashcardIndex s = Index k \<and> 0 \<le> k \<longrightarrow>
        click_Next r s = s\<lparr>currentFlashcardIndex := Index ((k + 1) mod int (length (flashcards s)))\<rparr>
        \<and> click_Previous r s = s\<lparr>currentFlashcardIndex := Index ((k - 1) mod int (length (flashcards s)))\<rparr>
        \<and> 0 \<le> (k + 1) mod int (length (flashcards s))
        \<and> (k + 1) mod int (length (flashcards s)) < int (length (flashcards s))
        \<and> 0 \<le> (k - 1) mod int (length (flashcards s))
        \<and> (k - 1) mod int (length (flashcards s)) < int (length (flashcards s)))
   \<and> (flashcards s \<noteq> [] \<and> currentFlashcardIndex s = Index k \<and> 0 \<le> k \<longrightarrow>
        handleNextFlashcard s = s\<lparr>currentFlashcardIndex := Index ((k + 1) mod int (length (flashcards s)))\<rparr>
        \<and> handlePreviousFlashcard s
            = s\<lparr>currentFlashcardIndex := Index ((k - 1) mod int (length (flashcards s)))\<rparr>)
   \<and> (length (flashcards s) = 1 \<and> currentFlashcardIndex s = Index 0 \<longrightarrow>
        handleNextFlashcard s = s \<and> handlePreviousFlashcard s = s)"
proof -
  let ?n = "int (length (flashcards s))"
  have handlers: "handleNextFlashcard s = s\<lparr>currentFlashcardIndex := Index ((k + 1) mod ?n)\<rparr>
        \<and> handlePreviousFlashcard s = s\<lparr>currentFlashcardIndex := Index ((k - 1) mod ?n)\<rparr>"
    if a: "flashcards s \<noteq> []" "currentFlashcardIndex s = Index k" "0 \<le> k"
  proof -
    from a(1) have n: "0 < ?n" by simp
    from a(3) have k1: "0 \<le> k + 1" by simp
    from a(3) n have k2: "0 \<le> k - 1 + ?n" by linarith
    from k1 n have nx: "js_rem (k + 1) ?n = Index ((k + 1) mod ?n)"
      by (rule js_rem_nonneg)
    from k2 n have "js_rem (k - 1 + ?n) ?n = Index ((k - 1 + ?n) mod ?n)"
      by (rule js_rem_nonneg)
    then have pv: "js_rem (k - 1 + ?n) ?n = Index ((k - 1) mod ?n)"
      by simp
    show ?thesis
      using a(2) nx pv by (simp add: handleNextFlashcard_def handlePreviousFlashcard_def)
  qed
  have 1: "length (flashcards s) \<le> 1 \<longrightarrow> click_Next r s = s \<and> click_Previous r s = s"
    by (simp add: click_Next_def click_Previous_def navigation_enabled_def)
  have 2: "navigation_enabled r s \<and> currentFlashcardIndex s = Index k \<and> 0 \<le> k \<longrightarrow>
        click_Next r s = s\<lparr>currentFlashcardIndex := Index ((k + 1) mod ?n)\<rparr>
        \<and> click_Previous r s = s\<lparr>currentFlashcardIndex := Index ((k - 1) mod ?n)\<rparr>
        \<and> 0 \<le> (k + 1) mod ?n \<and> (k + 1) mod ?n < ?n \<and> 0 \<le> (k - 1) mod ?n \<and> (k - 1) mod ?n < ?n"
  proof
    assume a: "navigation_enabled r s \<and> currentFlashcardIndex s = Index k \<and> 0 \<le> k"
    then have ne: "flashcards s \<noteq> []"
      by (auto simp add: navigation_enabled_def)
    then have n: "0 < ?n" by simp
    from a have "click_Next r s = handleNextFlashcard s \<and> click_Previous r s = handlePreviousFlashcard s"
      by (simp add: click_Next_def click_Previous_def)
    with handlers [OF ne] a n
    show "click_Next r s = s\<lparr>currentFlashcardIndex := Index ((k + 1) mod ?n)\<rparr>
        \<and> click_Previous r s = s\<lparr>currentFlashcardIndex := Index ((k - 1) mod ?n)\<rparr>
        \<and> 0 \<le> (k + 1) mod ?n \<and> (k + 1) mod ?n < ?n \<and> 0 \<le> (k - 1) mod ?n \<and> (k - 1) mod ?n < ?n"
      by simp
  qed
  have 3: "flashcards s \<noteq> [] \<and> currentFlashcardIndex s = Index k \<and> 0 \<le> k \<longrightarrow>
        handleNextFlashcard s = s\<lparr>currentFlashcardIndex := Index ((k + 1) mod ?n)\<rparr>
        \<and> handlePreviousFlashcard s = s\<lparr>currentFlashcardIndex := Index ((k - 1) mod ?n)\<rparr>"
    using handlers by blast
  have 4: "length (flashcards s) = 1 \<and> currentFlashcardIndex s = Index 0 \<longrightarrow>
        handleNextFlashcard s = s \<and> handlePreviousFlashcard s = s"
    by (auto simp add: handleNextFlashcard_def handlePreviousFlashcard_def js_rem_def)
  from 1 2 3 4 show ?thesis by blast
qed

theorem advance_wraps_witness:
  "navigation_enabled False (deck3\<lparr>currentFlashcardIndex := Index 2\<rparr>)
   \<and> currentFlashcardIndex (deck3\<lparr>currentFlashcardIndex := Index 2\<rparr>) = Index 2 \<and> (0::int) \<le> 2
   \<and> currentFlashcardIndex (click_Next False (deck3\<lparr>currentFlashcardIndex := Index 2\<rparr>)) = Index 0
   \<and> currentFlashcardIndex (click_Previous False (deck3\<lparr>currentFlashcardIndex := Index 2\<rparr>)) = Index 1
   \<and> navigation_enabled False deck3
   \<and> currentFlashcardIndex (click_Next False deck3) = Index 1
   \<and> currentFlashcardIndex (click_Previous False deck3) = Index 2
   \<and> length (flashcards (deck3\<lparr>flashcards := [card0]\<rparr>)) = 1
   \<and> click_Next False (deck3\<lparr>flashcards := [card0]\<rparr>) = deck3\<lparr>flashcards := [card0]\<rparr>
   \<and> click_Previous False (deck3\<lparr>flashcards := [card0]\<rparr>) = deck3\<lparr>flashcards := [card0]\<rparr>
   \<and> handleNextFlashcard (deck3\<lparr>flashcards := [card0]\<rparr>) = deck3\<lparr>flashcards := [card0]\<rparr>
   \<and> handlePreviousFlashcard (deck3\<lparr>flashcards := [card0]\<rparr>) = deck3\<lparr>flashcards := [card0]\<rparr>
   \<and> click_Next False (deck3\<lparr>flashcards := []\<rparr>) = deck3\<lparr>flashcards := []\<rparr>
   \<and> click_Previous False (deck3\<lparr>flashcards := []\<rparr>) = deck3\<lparr>flashcards := []\<rparr>"
  using advance_wraps [of "deck3\<lparr>currentFlashcardIndex := Index 2\<rparr>" False 2]
        advance_wraps [of deck3 False 0]
        advance_wraps [of "deck3\<lparr>flashcards := [card0]\<rparr>" False 0]
        advance_wraps [of "deck3\<lparr>flashcards := []\<rparr>" False 0]
  by (simp add: deck3_def navigation_enabled_def)

section \<open>Properties of the listing\<close>

lemma Promise_all_map_Inr: "Promise_all (map Inr vs) = Inr vs"
  by (induction vs) simp_all


lemma Promise_all_Inl: "Inl e \<in> set ps \<Longrightarrow> \<exists>e'. Promise_all ps = Inl e'"
proof (induction ps)
  case Nil
  then show ?case by simp
next
  case (Cons p ps)
  then show ?case
    by (cases p) (auto split: sum.splits)
qed

lemma read_entry_stored:
  assumes "fault kv = None" and "distinct (map fst (entries kv))" and "(k, v) \<in> set (entries kv)"
  shows "read_entry kv k =
     (case v of Stringified c \<Rightarrow> Inr (Some c)
      | Malformed raw \<Rightarrow> if raw = [] then Inr None else Inl (SyntaxError_message raw))"
proof -
  from assms(2,3) have "map_of (entries kv) k = Some v"
    by simp
  with assms(1) show ?thesis
    by (simp add: read_entry_def KV_get_def split: json_text.splits)
qed

lemma read_all_valid:
  assumes "fault kv = None" and "distinct (map fst es)" and "set es \<subseteq> set (entries kv)"
    and "distinct (map fst (entries kv))"
    and "\<forall>k raw. (k, Malformed raw) \<in> set es \<longrightarrow> raw = []"
  shows "\<exists>vs. map (read_entry kv) (map fst es) = map Inr vs \<and> List.map_filter (\<lambda>v. v) vs = valid_cards es"
  using assms(2,3,5)
proof (induction es rule: valid_cards.induct)
  case 1
  then show ?case by (simp add: List.map_filter_simps)
next
  case (2 k c es)
  then obtain vs where vs: "map (read_entry kv) (map fst es) = map Inr vs"
      "List.map_filter (\<lambda>v. v) vs = valid_cards es"
    by auto
  from 2 have "read_entry kv k = Inr (Some c)"
    using read_entry_stored [OF assms(1) assms(4), of k "Stringified c"] by simp
  with vs have "map (read_entry kv) (map fst ((k, Stringified c) # es)) = map Inr (Some c # vs)
      \<and> List.map_filter (\<lambda>v. v) (Some c # vs) = valid_cards ((k, Stringified c) # es)"
    by (simp add: List.map_filter_simps)
  then show ?case by blast
next
  case (3 k raw es)
  then obtain vs where vs: "map (read_entry kv) (map fst es) = map Inr vs"
      "List.map_filter (\<lambda>v. v) vs = valid_cards es"
    by auto
  from 3 have "raw = []" by simp
  with 3 have "read_entry kv k = Inr None"
    using read_entry_stored [OF assms(1) assms(4), of k "Malformed raw"] by simp
  with vs have "map (read_entry kv) (map fst ((k, Malformed raw) # es)) = map Inr (None # vs)
      \<and> List.map_filter (\<lambda>v. v) (None # vs) = valid_cards ((k, Malformed raw) # es)"
    by (simp add: List.map_filter_simps)
  then show ?case by blast
qed

lemma GET_flashcards_valid:
  assumes "fault (FLASHCARDS_KV w) = None" and "distinct (map fst (entries (FLASHCARDS_KV w)))"
    and "\<forall>k raw. (k, Malformed raw) \<in> set (entries (FLASHCARDS_KV w)) \<longrightarrow> raw = []"
  shows "GET_flashcards w = createJsonResponse (valid_cards (entries (FLASHCARDS_KV w))) 200"
proof -
  obtain vs where vs: "map (read_entry (FLASHCARDS_KV w)) (map fst (entries (FLASHCARDS_KV w))) = map Inr vs"
      "List.map_filter (\<lambda>v. v) vs = valid_cards (entries (FLASHCARDS_KV w))"
    using read_all_valid [OF assms(1) assms(2) subset_refl assms(2) assms(3)] by blast
  from vs(1) have "Promise_all (map (read_entry (FLASHCARDS_KV w)) (map fst (entries (FLASHCARDS_KV w)))) = Inr vs"
    by (simp only: Promise_all_map_Inr)
  with vs(2) assms(1) show ?thesis
    by (simp add: GET_flashcards_def KV_list_def)
qed

lemma GET_flashcards_corrupt:
  assumes "fault (FLASHCARDS_KV w) = None" and "distinct (map fst (entries (FLASHCARDS_KV w)))"
    and "(k, Malformed raw) \<in> set (entries (FLASHCARDS_KV w))" and "raw \<noteq> []"
  shows "\<exists>m. GET_flashcards w = createErrorResponse (''Failed to retrieve flashcards: '' @ m) 500"
proof -
  have "read_entry (FLASHCARDS_KV w) k = Inl (SyntaxError_message raw)"
    using read_entry_stored [OF assms(1,2,3)] assms(4) by simp
  moreover have "k \<in> set (map fst (entries (FLASHCARDS_KV w)))"
    using assms(3) by force
  ultimately have "Inl (SyntaxError_message raw)
      \<in> set (map (read_entry (FLASHCARDS_KV w)) (map fst (entries (FLASHCARDS_KV w))))"
    by (metis image_eqI list.set_map)
  then obtain e where "Promise_all (map (read_entry (FLASHCARDS_KV w)) (map fst (entries (FLASHCARDS_KV w)))) = Inl e"
    using Promise_all_Inl by blast
  with assms(1) have "GET_flashcards w = createErrorResponse (''Failed to retrieve flashcards: '' @ e) 500"
    by (simp add: GET_flashcards_def KV_list_def)
  then show ?thesis by (rule exI)
qed

lemma getFlashcards_worker_error:
  "GET_flashcards w = createErrorResponse m 500 \<Longrightarrow>
   getFlashcards worker_GET w = (failed (''Failed to fetch flashcards: 500 '' @ orElse (Some m) ''Unknown error (500)''), w)"
  by (simp add: getFlashcards_def worker_GET_def createErrorResponse_def ok_def parseErrorResponse_def)

lemma getFlashcards_worker_ok:
  "GET_flashcards w = createJsonResponse cs 200 \<Longrightarrow>
   getFlashcards worker_GET w = (\<lparr>success = True, data = Some cs, error = None\<rparr>, w)"
  by (simp add: getFlashcards_def worker_GET_def createJsonResponse_def ok_def json_def)

text \<open>
  C3 (as stated, it fails). The claim: a listing of a store that holds valid
  cards and an entry that is not valid JSON succeeds and returns the valid
  cards. In the worker \<^verbatim>\<open>JSON.parse\<close> throws inside the \<^verbatim>\<open>try\<close> that spans
  the whole listing: with three valid cards and one corrupt entry the answer is
  the 500 error response, and \<^verbatim>\<open>getFlashcards\<close> returns a failure with no
  cards.
\<close>

theorem list_with_corrupt_entry_counterexample:
  "valid_cards (entries (FLASHCARDS_KV worker_corrupt)) = [card0, cardB, cardD]
   \<and> GET_flashcards worker_corrupt
       = \<lparr>status = 500, body = JsonError ''Failed to retrieve flashcards: Unexpected token in JSON''\<rparr>
   \<and> fst (getFlashcards worker_GET worker_corrupt)
       = \<lparr>success = False, data = None,
          error = Some ''Failed to fetch flashcards: 500 Failed to retrieve flashcards: Unexpected token in JSON''\<rparr>"
  by (simp add: worker_corrupt_def worker0_def GET_flashcards_def worker_GET_def KV_list_def
      KV_get_def read_entry_def SyntaxError_message_def createErrorResponse_def
      getFlashcards_def failed_def ok_def parseErrorResponse_def orElse_def)

text \<open>
  C3 (amended). With the KV store reachable: if some stored text is not empty
  and not valid JSON, the whole listing fails, the worker answering 500 with
  \<^verbatim>\<open>Failed to retrieve flashcards: ...\<close> and the service returning a failure
  without cards; if every stored text is valid card JSON or empty, the listing
  succeeds and returns exactly the valid cards, the empty entries being
  dropped without an error.
\<close>

theorem list_with_corrupt_entry:
  assumes "fault (FLASHCARDS_KV w) = None" and "distinct (map fst (entries (FLASHCARDS_KV w)))"
  shows "((\<exists>k raw. (k, Malformed raw) \<in> set (entries (FLASHCARDS_KV w)) \<and> raw \<noteq> []) \<longrightarrow>
            status (GET_flashcards w) = 500
            \<and> (\<exists>m. body (GET_flashcards w) = JsonError (''Failed to retrieve flashcards: '' @ m))
            \<and> \<not> success (fst (getFlashcards worker_GET w))
            \<and> data (fst (getFlashcards worker_GET w)) = None)
       \<and> ((\<forall>k raw. (k, Malformed raw) \<in> set (entries (FLASHCARDS_KV w)) \<longrightarrow> raw = []) \<longrightarrow>
            GET_flashcards w = createJsonResponse (valid_cards (entries (FLASHCARDS_KV w))) 200
            \<and> getFlashcards worker_GET w
                = (\<lparr>success = True, data = Some (valid_cards (entries (FLASHCARDS_KV w))), error = None\<rparr>, w))"
proof (intro conjI impI)
  assume "\<exists>k raw. (k, Malformed raw) \<in> set (entries (FLASHCARDS_KV w)) \<and> raw \<noteq> []"
  then obtain m where m: "GET_flashcards w = createErrorResponse (''Failed to retrieve flashcards: '' @ m) 500"
    using GET_flashcards_corrupt [OF assms] by blast
  show "status (GET_flashcards w) = 500"
    by (simp add: m createErrorResponse_def)
  show "\<exists>m. body (GET_flashcards w) = JsonError (''Failed to retrieve flashcards: '' @ m)"
    by (simp add: m createErrorResponse_def)
  show "\<not> success (fst (getFlashcards worker_GET w))"
    by (simp add: getFlashcards_worker_error [OF m] failed_def)
  show "data (fst (getFlashcards worker_GET w)) = None"
    by (simp add: getFlashcards_worker_error [OF m] failed_def)
next
  assume a: "\<forall>k raw. (k, Malformed raw) \<in> set (entries (FLASHCARDS_KV w)) \<longrightarrow> raw = []"
  show g: "GET_flashcards w = createJsonResponse (valid_cards (entries (FLASHCARDS_KV w))) 200"
    using assms a by (rule GET_flashcards_valid)
  show "getFlashcards worker_GET w
                = (\<lparr>success = True, data = Some (valid_cards (entries (FLASHCARDS_KV w))), error = None\<rparr>, w)"
    using g by (rule getFlashcards_worker_ok)
qed

theorem list_with_corrupt_entry_witness:
  "fault (FLASHCARDS_KV worker_corrupt) = None
   \<and> distinct (map fst (entries (FLASHCARDS_KV worker_corrupt)))
   \<and> (''x'', Malformed ''{oops'') \<in> set (entries (FLASHCARDS_KV worker_corrupt)) \<and> ''{oops'' \<noteq> []
   \<and> status (GET_flashcards worker_corrupt) = 500
   \<and> \<not> success (fst (getFlashcards worker_GET worker_corrupt))
   \<and> fault (FLASHCARDS_KV worker_blank) = None
   \<and> distinct (map fst (entries (FLASHCARDS_KV worker_blank)))
   \<and> GET_flashcards worker_blank = createJsonResponse [card0, cardD] 200
   \<and> fst (getFlashcards worker_GET worker_blank) = \<lparr>success = True, data = Some [card0, cardD], error = None\<rparr>"
  using list_with_corrupt_entry [of worker_corrupt] list_with_corrupt_entry [of worker_blank]
  by (simp add: worker_corrupt_def worker_blank_def worker0_def GET_flashcards_def worker_GET_def
      KV_list_def KV_get_def read_entry_def SyntaxError_message_def createErrorResponse_def
      createJsonResponse_def getFlashcards_def failed_def ok_def json_def parseErrorResponse_def
      orElse_def List.map_filter_simps)

section \<open>Properties of the creation\<close>

lemma POST_flashcards_malformed:
  "request_json req = Inl m \<Longrightarrow>
   POST_flashcards req w = (createErrorResponse (''Failed to add flashcard: '' @ m) 400, w)"
  by (simp add: POST_flashcards_def)

lemma POST_flashcards_faulty:
  "request_json req = Inr d \<Longrightarrow> fault (FLASHCARDS_KV w) = Some m \<Longrightarrow>
   POST_flashcards req w = (createErrorResponse (''Failed to add flashcard: '' @ m) 400,
                            w\<lparr>random := stl (random w), now := stl (stl (now w))\<rparr>)"
  by (simp add: POST_flashcards_def crypto_randomUUID_def worker_Date_now_def Date_now_def
      KV_put_def Let_def)

lemma POST_flashcards_parsed:
  assumes "request_json req = Inr d" and "fault (FLASHCARDS_KV w) = None"
    and "c = \<lparr>word = word d, definition' = definition' d, exampleSentence = exampleSentence d,
              lastReviewedAt = lastReviewedAt d, id = shd (random w), createdAt = shd (now w),
              dueDate = Some (shd (stl (now w))), interval = Some 0\<rparr>"
  shows "POST_flashcards req w
         = (createJsonResponse c 201,
            w\<lparr>FLASHCARDS_KV := (FLASHCARDS_KV w)\<lparr>entries :=
                  AList.update (shd (random w)) (Stringified c) (entries (FLASHCARDS_KV w))\<rparr>,
              random := stl (random w), now := stl (stl (now w))\<rparr>)"
  using assms
  by (simp add: POST_flashcards_def crypto_randomUUID_def worker_Date_now_def Date_now_def
      KV_put_def Let_def JSON_stringify_def)

lemma POST_flashcards_stored:
  assumes "fault (FLASHCARDS_KV w) = None"
    and "c = \<lparr>word = word d, definition' = definition' d, exampleSentence = exampleSentence d,
              lastReviewedAt = lastReviewedAt d, id = shd (random w), createdAt = shd (now w),
              dueDate = Some (shd (stl (now w))), interval = Some 0\<rparr>"
  shows "POST_flashcards \<lparr>method' = m, url = u, request_body = Some (JSON_stringify d)\<rparr> w
         = (createJsonResponse c 201,
            w\<lparr>FLASHCARDS_KV := (FLASHCARDS_KV w)\<lparr>entries :=
                  AList.update (shd (random w)) (Stringified c) (entries (FLASHCARDS_KV w))\<rparr>,
              random := stl (random w), now := stl (stl (now w))\<rparr>)"
proof -
  have "request_json \<lparr>method' = m, url = u, request_body = Some (JSON_stringify d)\<rparr> = Inr d"
    by (simp add: request_json_def JSON_stringify_def)
  then show ?thesis
    using assms by (rule POST_flashcards_parsed)
qed

lemma POST_flashcards_400:
  "status (fst (POST_flashcards req w)) = 400
   \<longleftrightarrow> (\<exists>m. request_json req = Inl m) \<or> fault (FLASHCARDS_KV w) \<noteq> None"
proof (cases "request_json req")
  case (Inl m)
  then show ?thesis
    by (simp add: POST_flashcards_malformed createErrorResponse_def)
next
  case (Inr d)
  show ?thesis
  proof (cases "fault (FLASHCARDS_KV w)")
    case None
    with Inr show ?thesis
      by (simp add: POST_flashcards_parsed createJsonResponse_def)
  next
    case (Some m)
    with Inr show ?thesis
      by (simp add: POST_flashcards_faulty createErrorResponse_def)
  qed
qed

lemma POST_flashcards_status:
  "status (fst (POST_flashcards req w)) = 201 \<or> status (fst (POST_flashcards req w)) = 400"
proof (cases "request_json req")
  case (Inl m)
  then show ?thesis
    by (simp add: POST_flashcards_malformed createErrorResponse_def)
next
  case (Inr d)
  show ?thesis
  proof (cases "fault (FLASHCARDS_KV w)")
    case None
    with Inr show ?thesis
      by (simp add: POST_flashcards_parsed createJsonResponse_def)
  next
    case (Some m)
    with Inr show ?thesis
      by (simp add: POST_flashcards_faulty createErrorResponse_def)
  qed
qed

lemma POST_flashcards_400_stores_nothing:
  assumes "status (fst (POST_flashcards req w)) = 400"
  shows "FLASHCARDS_KV (snd (POST_flashcards req w)) = FLASHCARDS_KV w"
proof (cases "request_json req")
  case (Inl m)
  then show ?thesis
    by (simp add: POST_flashcards_malformed)
next
  case (Inr d)
  show ?thesis
  proof (cases "fault (FLASHCARDS_KV w)")
    case None
    with Inr assms show ?thesis
      by (simp add: POST_flashcards_parsed createJsonResponse_def)
  next
    case (Some m)
    with Inr show ?thesis
      by (simp add: POST_flashcards_faulty)
  qed
qed


lemma addFlashcard_worker_stored:
  assumes "fault (FLASHCARDS_KV w) = None"
    and "c = \<lparr>word = word d, definition' = definition' d, exampleSentence = exampleSentence d,
              lastReviewedAt = lastReviewedAt d, id = shd (random w), createdAt = shd (now w),
              dueDate = Some (shd (stl (now w))), interval = Some 0\<rparr>"
  shows "addFlashcard worker_POST d w
         = (\<lparr>success = True, data = Some c, error = None\<rparr>,
            w\<lparr>FLASHCARDS_KV := (FLASHCARDS_KV w)\<lparr>entries :=
                  AList.update (shd (random w)) (Stringified c) (entries (FLASHCARDS_KV w))\<rparr>,
              random := stl (random w), now := stl (stl (now w))\<rparr>)"
  by (simp add: addFlashcard_def worker_POST_def POST_flashcards_stored [OF assms]
      createJsonResponse_def ok_def json_def)










text \<open>
  C8 (as stated, it fails). The claim: a create request whose draft has an empty
  word or definition fails with status 400 and stores no card. The worker does
  not look at the fields: the draft with an empty word and an empty definition
  is answered 201, the service reports success, and the card is in the store.
\<close>

theorem create_validation_counterexample:
  "word draft_blank = [] \<and> definition' draft_blank = []
   \<and> status (fst (POST_flashcards \<lparr>method' = ''POST'', url = ENDPOINTS_FLASHCARDS,
                                    request_body = Some (JSON_stringify draft_blank)\<rparr> worker0)) = 201
   \<and> fst (addFlashcard worker_POST draft_blank worker0)
       = \<lparr>success = True,
          data = Some \<lparr>word = [], definition' = [], exampleSentence = None, lastReviewedAt = None,
                       id = ''uuid-1'', createdAt = 1000, dueDate = Some 1001, interval = Some 0\<rparr>,
          error = None\<rparr>
   \<and> entries (FLASHCARDS_KV (snd (addFlashcard worker_POST draft_blank worker0)))
       = [(''uuid-1'', Stringified \<lparr>word = [], definition' = [], exampleSentence = None,
                                     lastReviewedAt = None, id = ''uuid-1'', createdAt = 1000,
                                     dueDate = Some 1001, interval = Some 0\<rparr>)]"
  by (simp add: draft_blank_def worker0_def POST_flashcards_def worker_POST_def KV_put_def
      request_json_def JSON_stringify_def crypto_randomUUID_def worker_Date_now_def Date_now_def
      createJsonResponse_def addFlashcard_def ok_def json_def Let_def)

lemma handleSubmit_blank:
  "trim (form_word f) = [] \<or> trim (form_definition f) = [] \<Longrightarrow>
   handleSubmit trim onAdd f p = (f\<lparr>form_error := ''Word and Definition are required.''\<rparr>, p)"
  by (auto simp add: handleSubmit_def Let_def)

lemma handleSubmit_filled:
  "trim (form_word f) \<noteq> [] \<Longrightarrow> trim (form_definition f) \<noteq> [] \<Longrightarrow>
   handleSubmit trim onAdd f p
   = (f\<lparr>form_error := [], form_word := [], form_definition := [], form_exampleSentence := []\<rparr>,
      onAdd \<lparr>word = form_word f, definition' = form_definition f,
             exampleSentence = Some (form_exampleSentence f), lastReviewedAt = None\<rparr> p)"
  by (simp add: handleSubmit_def Let_def)

text \<open>
  C8 (amended). The create endpoint does no validation of fields: with the KV
  store reachable every draft, whatever its word and definition, is answered
  201 and stored under the new id, and the service reports success. The
  endpoint answers 201 or 400, and 400 exactly when the request body is not
  valid JSON or the KV store rejects the write; nothing is stored then. The
  required-field check is in the form only: a submit with a word or a
  definition that \<^verbatim>\<open>String.prototype.trim\<close> makes empty sets the form's error
  to \<^verbatim>\<open>Word and Definition are required.\<close> and calls nothing, and any other
  submit passes the draft, untrimmed, on to the parent's add handler and clears
  the form.
\<close>

theorem create_validation:
  "(fault (FLASHCARDS_KV w) = None \<longrightarrow>
      status (fst (POST_flashcards \<lparr>method' = ''POST'', url = ENDPOINTS_FLASHCARDS,
                                     request_body = Some (JSON_stringify d)\<rparr> w)) = 201
      \<and> success (fst (addFlashcard worker_POST d w))
      \<and> (\<exists>c. map_of (entries (FLASHCARDS_KV (snd (addFlashcard worker_POST d w)))) (shd (random w))
                = Some (Stringified c)
              \<and> word c = word d \<and> definition' c = definition' d))
   \<and> (status (fst (POST_flashcards req w)) = 400
        \<longleftrightarrow> (\<exists>m. request_json req = Inl m) \<or> fault (FLASHCARDS_KV w) \<noteq> None)
   \<and> (status (fst (POST_flashcards req w)) = 201 \<or> status (fst (POST_flashcards req w)) = 400)
   \<and> (status (fst (POST_flashcards req w)) = 400 \<longrightarrow>
        FLASHCARDS_KV (snd (POST_flashcards req w)) = FLASHCARDS_KV w)
   \<and> (trim (form_word f) = [] \<or> trim (form_definition f) = [] \<longrightarrow>
        handleSubmit trim onAdd f p = (f\<lparr>form_error := ''Word and Definition are required.''\<rparr>, p))
   \<and> (trim (form_word f) \<noteq> [] \<and> trim (form_definition f) \<noteq> [] \<longrightarrow>
        handleSubmit trim onAdd f p
        = (f\<lparr>form_error := [], form_word := [], form_definition := [], form_exampleSentence := []\<rparr>,
           onAdd \<lparr>word = form_word f, definition' = form_definition f,
                  exampleSentence = Some (form_exampleSentence f), lastReviewedAt = None\<rparr> p))"
proof (intro conjI impI)
  assume up: "fault (FLASHCARDS_KV w) = None"
  define c where "c = \<lparr>word = word d, definition' = definition' d, exampleSentence = exampleSentence d,
              lastReviewedAt = lastReviewedAt d, id = shd (random w), createdAt = shd (now w),
              dueDate = Some (shd (stl (now w))), interval = Some 0\<rparr>"
  show "status (fst (POST_flashcards \<lparr>method' = ''POST'', url = ENDPOINTS_FLASHCARDS,
                                     request_body = Some (JSON_stringify d)\<rparr> w)) = 201"
    by (simp add: POST_flashcards_stored [OF up c_def] createJsonResponse_def)
  show "success (fst (addFlashcard worker_POST d w))"
    by (simp add: addFlashcard_worker_stored [OF up c_def])
  have "map_of (entries (FLASHCARDS_KV (snd (addFlashcard worker_POST d w)))) (shd (random w))
                = Some (Stringified c)"
    by (simp add: addFlashcard_worker_stored [OF up c_def] update_conv')
  moreover have "word c = word d \<and> definition' c = definition' d"
    by (simp add: c_def)
  ultimately show "\<exists>c. map_of (entries (FLASHCARDS_KV (snd (addFlashcard worker_POST d w)))) (shd (random w))
                = Some (Stringified c)
              \<and> word c = word d \<and> definition' c = definition' d"
    by blast
next
  show "status (fst (POST_flashcards req w)) = 400
        \<longleftrightarrow> (\<exists>m. request_json req = Inl m) \<or> fault (FLASHCARDS_KV w) \<noteq> None"
    by (rule POST_flashcards_400)
  show "status (fst (POST_flashcards req w)) = 201 \<or> status (fst (POST_flashcards req w)) = 400"
    by (rule POST_flashcards_status)
next
  assume "status (fst (POST_flashcards req w)) = 400"
  then show "FLASHCARDS_KV (snd (POST_flashcards req w)) = FLASHCARDS_KV w"
    by (rule POST_flashcards_400_stores_nothing)
next
  assume "trim (form_word f) = [] \<or> trim (form_definition f) = []"
  then show "handleSubmit trim onAdd f p = (f\<lparr>form_error := ''Word and Definition are required.''\<rparr>, p)"
    by (rule handleSubmit_blank)
next
  assume "trim (form_word f) \<noteq> [] \<and> trim (form_definition f) \<noteq> []"
  then show "handleSubmit trim onAdd f p
        = (f\<lparr>form_error := [], form_word := [], form_definition := [], form_exampleSentence := []\<rparr>,
           onAdd \<lparr>word = form_word f, definition' = form_definition f,
                  exampleSentence = Some (form_exampleSentence f), lastReviewedAt = None\<rparr> p)"
    by (simp add: handleSubmit_filled)
qed

theorem create_validation_witness:
  "fault (FLASHCARDS_KV worker0) = None
   \<and> success (fst (addFlashcard worker_POST draft_blank worker0))
   \<and> request_json \<lparr>method' = ''POST'', url = ENDPOINTS_FLASHCARDS,
                   request_body = Some (Malformed ''{oops'')\<rparr>
       = (Inl ''Unexpected token in JSON'' :: string + flashcard_draft)
   \<and> POST_flashcards \<lparr>method' = ''POST'', url = ENDPOINTS_FLASHCARDS,
                      request_body = Some (Malformed ''{oops'')\<rparr> worker0
       = (\<lparr>status = 400, body = JsonError ''Failed to add flashcard: Unexpected token in JSON''\<rparr>, worker0)
   \<and> dropWhile (\<lambda>c. c = CHR '' '') (form_word \<lparr>form_word = ''  '', form_definition = ''a color'',
                       form_exampleSentence = [], form_error = []\<rparr>) = []
   \<and> handleSubmit (dropWhile (\<lambda>c. c = CHR '' '')) (\<lambda>d (n::nat). Suc n)
        \<lparr>form_word = ''  '', form_definition = ''a color'', form_exampleSentence = [], form_error = []\<rparr> 0
       = (\<lparr>form_word = ''  '', form_definition = ''a color'', form_exampleSentence = [],
           form_error = ''Word and Definition are required.''\<rparr>, 0)
   \<and> dropWhile (\<lambda>c. c = CHR '' '') (form_word \<lparr>form_word = ''red'', form_definition = ''a color'',
                       form_exampleSentence = [], form_error = []\<rparr>) = ''red''
   \<and> handleSubmit (dropWhile (\<lambda>c. c = CHR '' '')) (\<lambda>d (n::nat). Suc n)
        \<lparr>form_word = ''red'', form_definition = ''a color'', form_exampleSentence = [], form_error = []\<rparr> 0
       = (\<lparr>form_word = [], form_definition = [], form_exampleSentence = [], form_error = []\<rparr>, Suc 0)"
  using create_validation [of worker0 draft_blank
          "\<lparr>method' = ''POST'', url = ENDPOINTS_FLASHCARDS, request_body = Some (Malformed ''{oops'')\<rparr>"
          "dropWhile (\<lambda>c. c = CHR '' '')"
          "\<lparr>form_word = ''  '', form_definition = ''a color'', form_exampleSentence = [], form_error = []\<rparr>"
          "\<lambda>d (n::nat). Suc n" 0]
        create_validation [of worker0 draft_blank
          "\<lparr>method' = ''POST'', url = ENDPOINTS_FLASHCARDS, request_body = Some (Malformed ''{oops'')\<rparr>"
          "dropWhile (\<lambda>c. c = CHR '' '')"
          "\<lparr>form_word = ''red'', form_definition = ''a color'', form_exampleSentence = [], form_error = []\<rparr>"
          "\<lambda>d (n::nat). Suc n" 0]
  by (simp add: draft_blank_def worker0_def POST_flashcards_def worker_POST_def KV_put_def
      request_json_def JSON_stringify_def SyntaxError_message_def crypto_randomUUID_def
      worker_Date_now_def Date_now_def createJsonResponse_def createErrorResponse_def
      addFlashcard_def ok_def json_def Let_def handleSubmit_def)

end
